theory Spec2Isabelle
  imports Complex_Main
begin

section \<open>JavaScript values used by the client\<close>

subsection \<open>Numbers\<close>

text \<open>
  A JavaScript number is an IEEE-754 binary64 value: \<open>NaN\<close>, one of the two infinities,
  or a finite double, modelled as \<open>Fin q\<close> with \<open>q\<close> the exact value of the double. Every arithmetic operation computes the exact rational result and
  rounds it to the nearest double, ties to even (\<open>toDouble\<close>), which is what IEEE-754
  prescribes. The two zeros are identified: the client never divides by a variable and
  never inspects the sign of a zero, and \<open>-0 === 0\<close>, \<open>-0 < 0\<close> is false, \<open>-0 || 0\<close> is \<open>0\<close>.
\<close>

datatype jsnum = NaN | NegInf | Fin real | PosInf

function ilog2 :: "int \<Rightarrow> int" where
  \<comment> \<open>for \<open>n \<ge> 1\<close>: the position of the leading bit of \<open>n\<close>\<close>
  "ilog2 n = (if n < 2 then 0 else 1 + ilog2 (n div 2))"
  by pat_completeness auto
termination
  by (relation "measure nat") auto

declare ilog2.simps [simp del]

definition pow2 :: "int \<Rightarrow> real" where
  "pow2 e = (if 0 \<le> e then 2 ^ nat e else 1 / 2 ^ nat (- e))"

definition floor_log2 :: "real \<Rightarrow> int" where
  \<comment> \<open>for \<open>q > 0\<close>: the exponent \<open>e\<close> with \<open>2^e \<le> q < 2^(e+1)\<close>\<close>
  "floor_log2 q =
     (if 1 \<le> q then ilog2 \<lfloor>q\<rfloor>
      else - (1 + ilog2 (\<lceil>1 / q\<rceil> - 1)))"

definition round_half_even :: "real \<Rightarrow> int" where
  "round_half_even m =
     (let f = \<lfloor>m\<rfloor>; r = m - of_int f
      in if r < 1 / 2 then f else if 1 / 2 < r then f + 1
         else if even f then f else f + 1)"

definition round_pos :: "real \<Rightarrow> jsnum" where
  \<comment> \<open>for \<open>q > 0\<close>: 53 significant bits, exponents from -1022 (subnormals below) to 1023\<close>
  "round_pos q =
     (let e = max (floor_log2 q) (- 1022);
          ulp = pow2 (e - 52);
          v = of_int (round_half_even (q / ulp)) * ulp
      in if pow2 1024 \<le> v then PosInf else Fin v)"

fun js_neg :: "jsnum \<Rightarrow> jsnum" where
  "js_neg NaN = NaN"
| "js_neg NegInf = PosInf"
| "js_neg PosInf = NegInf"
| "js_neg (Fin q) = Fin (- q)"

definition toDouble :: "real \<Rightarrow> jsnum" where
  "toDouble q =
     (if q = 0 then Fin 0 else if 0 < q then round_pos q else js_neg (round_pos (- q)))"

fun js_add :: "jsnum \<Rightarrow> jsnum \<Rightarrow> jsnum" where
  "js_add NaN _ = NaN"
| "js_add _ NaN = NaN"
| "js_add PosInf NegInf = NaN"
| "js_add NegInf PosInf = NaN"
| "js_add PosInf _ = PosInf"
| "js_add _ PosInf = PosInf"
| "js_add NegInf _ = NegInf"
| "js_add _ NegInf = NegInf"
| "js_add (Fin a) (Fin b) = toDouble (a + b)"

fun js_sign_inf :: "bool \<Rightarrow> jsnum" where
  "js_sign_inf positive = (if positive then PosInf else NegInf)"

fun js_mul :: "jsnum \<Rightarrow> jsnum \<Rightarrow> jsnum" where
  "js_mul NaN _ = NaN"
| "js_mul _ NaN = NaN"
| "js_mul (Fin a) (Fin b) = toDouble (a * b)"
| "js_mul (Fin a) PosInf = (if a = 0 then NaN else js_sign_inf (0 < a))"
| "js_mul (Fin a) NegInf = (if a = 0 then NaN else js_sign_inf (a < 0))"
| "js_mul PosInf (Fin b) = (if b = 0 then NaN else js_sign_inf (0 < b))"
| "js_mul NegInf (Fin b) = (if b = 0 then NaN else js_sign_inf (b < 0))"
| "js_mul PosInf PosInf = PosInf"
| "js_mul NegInf NegInf = PosInf"
| "js_mul PosInf NegInf = NegInf"
| "js_mul NegInf PosInf = NegInf"

fun js_div :: "jsnum \<Rightarrow> jsnum \<Rightarrow> jsnum" where
  \<comment> \<open>a zero divisor is read as \<open>+0\<close>; the client only ever divides by the literal 100\<close>
  "js_div NaN _ = NaN"
| "js_div _ NaN = NaN"
| "js_div (Fin a) (Fin b) =
     (if b = 0 then (if a = 0 then NaN else js_sign_inf (0 < a)) else toDouble (a / b))"
| "js_div (Fin a) PosInf = Fin 0"
| "js_div (Fin a) NegInf = Fin 0"
| "js_div PosInf (Fin b) = js_sign_inf (0 \<le> b)"
| "js_div NegInf (Fin b) = js_sign_inf (b < 0)"
| "js_div PosInf PosInf = NaN"
| "js_div NegInf NegInf = NaN"
| "js_div PosInf NegInf = NaN"
| "js_div NegInf PosInf = NaN"

fun js_lt :: "jsnum \<Rightarrow> jsnum \<Rightarrow> bool" where
  \<comment> \<open>the operator \<open><\<close> on numbers; any comparison with \<open>NaN\<close> is false\<close>
  "js_lt NaN _ = False"
| "js_lt _ NaN = False"
| "js_lt (Fin a) (Fin b) = (a < b)"
| "js_lt NegInf NegInf = False"
| "js_lt NegInf _ = True"
| "js_lt _ NegInf = False"
| "js_lt PosInf _ = False"
| "js_lt _ PosInf = True"

fun truthy_num :: "jsnum \<Rightarrow> bool" where
  \<comment> \<open>ToBoolean on a number: false for \<open>NaN\<close> and for zero\<close>
  "truthy_num NaN = False"
| "truthy_num (Fin q) = (q \<noteq> 0)"
| "truthy_num _ = True"

subsection \<open>Strings\<close>

text \<open>
  Strings are lists of 8-bit code units. The strings whose content matters to the client
  are HTTP header values, API keys and URLs; the transport decodes header values as
  Latin-1, one code unit per byte.
\<close>

definition truthy :: "string option \<Rightarrow> bool" where
  \<comment> \<open>ToBoolean on an optional string: \<open>undefined\<close> and \<open>''\<close> are falsy\<close>
  "truthy v = (case v of None \<Rightarrow> False | Some s \<Rightarrow> s \<noteq> [])"

definition or_else :: "string option \<Rightarrow> string \<Rightarrow> string" where
  \<comment> \<open>\<open>v || d\<close> for an optional string \<open>v\<close>\<close>
  "or_else v d = (case v of None \<Rightarrow> d | Some s \<Rightarrow> if s = [] then d else s)"

definition value_of :: "string option \<Rightarrow> string" where
  \<comment> \<open>the string an optional string holds, read only where it is truthy\<close>
  "value_of v = (case v of None \<Rightarrow> [] | Some s \<Rightarrow> s)"

fun startsWith :: "string \<Rightarrow> string \<Rightarrow> bool" where
  "startsWith s [] = True"
| "startsWith [] (p # ps) = False"
| "startsWith (c # cs) (p # ps) = (c = p \<and> startsWith cs ps)"

fun js_split :: "char \<Rightarrow> string \<Rightarrow> string list" where
  \<comment> \<open>\<open>s.split(sep)\<close> for a one-character separator: \<open>''.split('.')\<close> is \<open>['']\<close>\<close>
  "js_split sep [] = [[]]"
| "js_split sep (c # cs) =
     (if c = sep then [] # js_split sep cs
      else (case js_split sep cs of
              [] \<Rightarrow> [[c]]
            | w # ws \<Rightarrow> (c # w) # ws))"

subsection \<open>The conversion \<open>Number(string)\<close>\<close>

text \<open>
  \<open>Number\<close> applied to a string follows the StringNumericLiteral grammar of ECMAScript:
  white space is trimmed; the empty string is 0; \<open>0x\<close>, \<open>0o\<close> and \<open>0b\<close> introduce unsigned
  integers in radix 16, 8 and 2; otherwise an optional sign is followed by \<open>Infinity\<close> or
  by a decimal literal with optional fraction and exponent; anything else is \<open>NaN\<close>. The
  mathematical value is rounded to the nearest double.
\<close>

definition isStrWhiteSpaceChar :: "char \<Rightarrow> bool" where
  \<comment> \<open>TAB, LF, VT, FF, CR, SP and NBSP: the white space of the Latin-1 range\<close>
  "isStrWhiteSpaceChar c = (of_char c \<in> set [9, 10, 11, 12, 13, 32, 160 :: int])"

definition trim :: "string \<Rightarrow> string" where
  "trim s = rev (dropWhile isStrWhiteSpaceChar (rev (dropWhile isStrWhiteSpaceChar s)))"

definition digitValue :: "char \<Rightarrow> int" where
  \<comment> \<open>the value of a digit in radix up to 16; 16 for every other character\<close>
  "digitValue c =
     (let n = of_char c :: int
      in if 48 \<le> n \<and> n \<le> 57 then n - 48
         else if 97 \<le> n \<and> n \<le> 102 then n - 87
         else if 65 \<le> n \<and> n \<le> 70 then n - 55
         else 16)"

definition isDecimalDigit :: "char \<Rightarrow> bool" where
  "isDecimalDigit c = (digitValue c < 10)"

definition digitsValue :: "int \<Rightarrow> string \<Rightarrow> int" where
  "digitsValue radix s = foldl (\<lambda>a c. a * radix + digitValue c) 0 s"

definition allDigits :: "int \<Rightarrow> string \<Rightarrow> bool" where
  \<comment> \<open>one digit at least, every character a digit of the radix\<close>
  "allDigits radix s = (s \<noteq> [] \<and> list_all (\<lambda>c. digitValue c < radix) s)"

definition nonDecimalIntegerLiteral :: "string \<Rightarrow> int option" where
  "nonDecimalIntegerLiteral s =
     (case s of
        z # x # ds \<Rightarrow>
          (if z \<noteq> CHR ''0'' then None
           else if (x = CHR ''x'' \<or> x = CHR ''X'') \<and> allDigits 16 ds then Some (digitsValue 16 ds)
           else if (x = CHR ''o'' \<or> x = CHR ''O'') \<and> allDigits 8 ds then Some (digitsValue 8 ds)
           else if (x = CHR ''b'' \<or> x = CHR ''B'') \<and> allDigits 2 ds then Some (digitsValue 2 ds)
           else None)
      | _ \<Rightarrow> None)"

definition pow10 :: "int \<Rightarrow> real" where
  "pow10 e = (if 0 \<le> e then 10 ^ nat e else 1 / 10 ^ nat (- e))"

definition exponentPart :: "string \<Rightarrow> int option" where
  \<comment> \<open>the text after the digits: nothing, or \<open>e\<close>/\<open>E\<close>, an optional sign and digits\<close>
  "exponentPart s =
     (case s of
        [] \<Rightarrow> Some 0
      | e # r \<Rightarrow>
          (if e = CHR ''e'' \<or> e = CHR ''E'' then
             (case r of
                [] \<Rightarrow> None
              | g # ds \<Rightarrow>
                  (if g = CHR ''-'' then
                     (if allDigits 10 ds then Some (- digitsValue 10 ds) else None)
                   else if g = CHR ''+'' then
                     (if allDigits 10 ds then Some (digitsValue 10 ds) else None)
                   else if allDigits 10 r then Some (digitsValue 10 r) else None))
           else None))"

definition strUnsignedDecimalLiteral :: "string \<Rightarrow> jsnum" where
  "strUnsignedDecimalLiteral s =
     (if s = ''Infinity'' then PosInf
      else
        (let ip = takeWhile isDecimalDigit s;
             r1 = dropWhile isDecimalDigit s;
             dotted = (r1 \<noteq> [] \<and> hd r1 = CHR ''.'');
             fp = (if dotted then takeWhile isDecimalDigit (tl r1) else []);
             r2 = (if dotted then dropWhile isDecimalDigit (tl r1) else r1)
         in if ip = [] \<and> fp = [] then NaN
            else (case exponentPart r2 of
                    None \<Rightarrow> NaN
                  | Some e \<Rightarrow>
                      toDouble (of_int (digitsValue 10 (ip @ fp)) * pow10 (e - int (length fp))))))"

definition strDecimalLiteral :: "string \<Rightarrow> jsnum" where
  "strDecimalLiteral s =
     (case s of
        [] \<Rightarrow> NaN
      | c # cs \<Rightarrow>
          (if c = CHR ''+'' then strUnsignedDecimalLiteral cs
           else if c = CHR ''-'' then js_neg (strUnsignedDecimalLiteral cs)
           else strUnsignedDecimalLiteral s))"

definition Number :: "string \<Rightarrow> jsnum" where
  "Number s =
     (let t = trim s
      in if t = [] then Fin 0
         else (case nonDecimalIntegerLiteral t of
                 Some n \<Rightarrow> toDouble (of_int n)
               | None \<Rightarrow> strDecimalLiteral t))"

definition parseInt10 :: "string \<Rightarrow> jsnum" where
  \<comment> \<open>\<open>parseInt(s, 10)\<close>: leading white space, an optional sign, then the longest run of
      decimal digits; \<open>NaN\<close> when there is no digit\<close>
  "parseInt10 s =
     (let t = dropWhile isStrWhiteSpaceChar s;
          negative = (t \<noteq> [] \<and> hd t = CHR ''-'');
          signed = (t \<noteq> [] \<and> (hd t = CHR ''-'' \<or> hd t = CHR ''+''));
          ds = takeWhile isDecimalDigit (if signed then tl t else t);
          n = toDouble (of_int (digitsValue 10 ds))
      in if ds = [] then NaN else if negative then js_neg n else n)"

section \<open>Types of the SDK (types.ts)\<close>

datatype ServiceEnvironment = development | staging | production

fun SERVICE_URLS :: "ServiceEnvironment \<Rightarrow> string" where
  "SERVICE_URLS development = ''http://localhost:3002''"
| "SERVICE_URLS staging = ''https://market-service-staging.dripedge.io''"
| "SERVICE_URLS production = ''https://market-service.dripedge.io''"

text \<open>
  A subscriber callback is a JavaScript function; the list of subscribers compares them by
  identity (\<open>indexOf\<close>), so a callback is modelled by a number naming it.
\<close>

type_synonym VersionChangeCallback = nat

record MarketServiceConfig =
  environment :: "ServiceEnvironment option"
  baseURL :: "string option"
  apiKey :: string
  jwtToken :: "string option"
  timeout :: "int option"
  clientAppName :: "string option"
  onVersionChange :: "VersionChangeCallback option"

record SDKVersionStatus =
  current :: string
  latest :: string
  minimum :: string
  status :: string
  message :: "string option"
  updateRequired :: bool
  updateAvailable :: bool
  checkedAt :: int

record 'a ApiResponse =
  api_status :: string
  data :: "'a option"
  count :: "int option"
  api_message :: "string option"
  error :: "string option"
  errorCode :: "string option"

record MarketServiceError =
  msg :: string
  code :: string
  statusCode :: "int option"
  retryAfter :: "jsnum option"

definition isAuthError :: "MarketServiceError \<Rightarrow> bool" where
  "isAuthError e =
     (code e \<in> set [''INVALID_API_KEY'', ''EXPIRED_API_KEY'', ''MISSING_API_KEY'',
                       ''INVALID_JWT'', ''EXPIRED_JWT'', ''INSUFFICIENT_PERMISSIONS''])"

definition isRateLimitError :: "MarketServiceError \<Rightarrow> bool" where
  "isRateLimitError e = (code e = ''RATE_LIMITED'')"

definition isRetryable :: "MarketServiceError \<Rightarrow> bool" where
  "isRetryable e = (isRateLimitError e \<or> statusCode e = Some 503 \<or> statusCode e = Some 504)"

text \<open>
  What the transport hands to the client: a response with its HTTP status, its headers and
  its body. The body is the envelope, or \<open>NoBody\<close> when it is \<open>null\<close> or \<open>undefined\<close>, in which
  case reading a property of it raises a \<open>TypeError\<close>.
\<close>

datatype 'a body = NoBody | Envelope "'a ApiResponse"

record 'a AxiosResponse =
  response_data :: "'a body"
  response_status :: int
  headers :: "string \<Rightarrow> string option"

record 'a AxiosError =
  response :: "'a AxiosResponse option"
  request :: bool
  error_message :: "string option"

text \<open>
  What a call of the client can throw: the SDK's own error, a \<open>TypeError\<close> of the runtime,
  or whatever a subscriber callback threw (named by the callback).
\<close>

datatype thrown = ServiceError MarketServiceError | TypeError | SubscriberError VersionChangeCallback

section \<open>The client (MarketServiceClient.ts)\<close>

definition SDK_VERSION :: string where
  "SDK_VERSION = ''1.1.0''"

subsection \<open>Configuration\<close>

definition resolveBaseURL :: "MarketServiceConfig \<Rightarrow> string" where
  "resolveBaseURL config =
     (if truthy (baseURL config) then value_of (baseURL config)
      else (let env = (case environment config of Some e \<Rightarrow> e | None \<Rightarrow> development)
            in SERVICE_URLS env))"

definition detectEnvironmentFromKey :: "string \<Rightarrow> ServiceEnvironment" where
  "detectEnvironmentFromKey key =
     (if startsWith key ''mk_live_'' then production else development)"

definition validateKeyEnvironment :: "string \<Rightarrow> ServiceEnvironment \<Rightarrow> string list" where
  \<comment> \<open>the warnings it writes with \<open>console.warn\<close>\<close>
  "validateKeyEnvironment key env =
     (let keyEnv = detectEnvironmentFromKey key
      in (if env = production \<and> keyEnv \<noteq> production
          then [''[MarketServiceSDK] Warning: Using test API key (mk_test_) in production environment. '' @
                ''Use a production key (mk_live_) for production.''] else []) @
         (if env \<noteq> production \<and> keyEnv = production
          then [''[MarketServiceSDK] Warning: Using production API key (mk_live_) in non-production environment. '' @
                ''Consider using a test key (mk_test_) for development/staging.''] else []))"

record MarketServiceClient =
  config :: MarketServiceConfig
  versionCallbacks :: "VersionChangeCallback list"
  versionStatus :: "SDKVersionStatus option"
  this_environment :: ServiceEnvironment
  this_baseURL :: string
  warnings :: "string list"

definition new_MarketServiceClient :: "MarketServiceConfig \<Rightarrow> thrown + MarketServiceClient" where
  \<comment> \<open>the constructor\<close>
  "new_MarketServiceClient cfg =
     (if apiKey cfg = [] then
        Inl (ServiceError
          \<lparr>msg = ''API key is required. Obtain one from the DripEdge admin portal.'',
           code = ''MISSING_API_KEY'', statusCode = None, retryAfter = None\<rparr>)
      else
        (let env = (case environment cfg of
                      Some e \<Rightarrow> e
                    | None \<Rightarrow> detectEnvironmentFromKey (apiKey cfg))
         in Inr \<lparr>config = cfg,
                 versionCallbacks = (case onVersionChange cfg of None \<Rightarrow> [] | Some cb \<Rightarrow> [cb]),
                 versionStatus = None,
                 this_environment = env,
                 this_baseURL = resolveBaseURL cfg,
                 warnings = validateKeyEnvironment (apiKey cfg) env\<rparr>))"

subsection \<open>compareVersions\<close>

definition part :: "jsnum list \<Rightarrow> nat \<Rightarrow> jsnum" where
  \<comment> \<open>\<open>parts[i] || 0\<close>: \<open>undefined\<close> past the end, \<open>NaN\<close> and zero all give 0\<close>
  "part ps i = (if i < length ps \<and> truthy_num (ps ! i) then ps ! i else Fin 0)"

function compareFrom :: "nat \<Rightarrow> jsnum list \<Rightarrow> jsnum list \<Rightarrow> int" where
  \<comment> \<open>the loop \<open>for (let i = 0; i < 3; i++)\<close>, entered at index \<open>i\<close>\<close>
  "compareFrom i partsA partsB =
     (if i < 3 then
        (let partA = part partsA i; partB = part partsB i
         in if js_lt partA partB then - 1
            else if js_lt partB partA then 1
            else compareFrom (Suc i) partsA partsB)
      else 0)"
  by pat_completeness auto
termination
  by (relation "measure (\<lambda>(i, _, _). 3 - i)") auto

declare compareFrom.simps [simp del]

definition compareVersions :: "string \<Rightarrow> string \<Rightarrow> int" where
  "compareVersions a b =
     compareFrom 0 (map Number (js_split CHR ''.'' a)) (map Number (js_split CHR ''.'' b))"

subsection \<open>Subscribers\<close>

text \<open>
  What a subscriber does to the client while it runs: it may register callbacks
  (\<open>onVersionChange\<close>), call unsubscribe functions it holds, and throw. Its body is the list
  of these actions in order; \<open>Throw\<close> ends it. The behaviour of every callback, given the
  status it is called with, is a parameter of the model.
\<close>

datatype cb_action = Subscribe VersionChangeCallback | Unsubscribe VersionChangeCallback | Throw

type_synonym behaviour = "VersionChangeCallback \<Rightarrow> SDKVersionStatus \<Rightarrow> cb_action list"

fun indexOf :: "'a list \<Rightarrow> 'a \<Rightarrow> nat option" where
  \<comment> \<open>\<open>None\<close> stands for -1\<close>
  "indexOf [] x = None"
| "indexOf (y # ys) x = (if y = x then Some 0 else map_option Suc (indexOf ys x))"

definition splice1 :: "nat \<Rightarrow> 'a list \<Rightarrow> 'a list" where
  \<comment> \<open>\<open>xs.splice(i, 1)\<close>: the list without its element at index \<open>i\<close>\<close>
  "splice1 i xs = take i xs @ drop (Suc i) xs"

definition subscribe :: "VersionChangeCallback \<Rightarrow> VersionChangeCallback list \<Rightarrow> VersionChangeCallback list" where
  \<comment> \<open>\<open>onVersionChange(callback)\<close>: \<open>this.versionCallbacks.push(callback)\<close>\<close>
  "subscribe cb cbs = cbs @ [cb]"

definition unsubscribe :: "VersionChangeCallback \<Rightarrow> VersionChangeCallback list \<Rightarrow> VersionChangeCallback list" where
  \<comment> \<open>the function \<open>onVersionChange(callback)\<close> returns\<close>
  "unsubscribe cb cbs = (case indexOf cbs cb of None \<Rightarrow> cbs | Some i \<Rightarrow> splice1 i cbs)"

fun run_callback :: "cb_action list \<Rightarrow> VersionChangeCallback list \<Rightarrow> VersionChangeCallback list \<times> bool" where
  \<comment> \<open>the subscriber list after the callback's body, and whether the body threw\<close>
  "run_callback [] cbs = (cbs, False)"
| "run_callback (Throw # _) cbs = (cbs, True)"
| "run_callback (Subscribe c # acts) cbs = run_callback acts (subscribe c cbs)"
| "run_callback (Unsubscribe c # acts) cbs = run_callback acts (unsubscribe c cbs)"

record notification =
  callbacks_after :: "VersionChangeCallback list"
  invoked :: "(VersionChangeCallback \<times> SDKVersionStatus) list"
  threw :: "VersionChangeCallback option"

function forEach_from ::
  "nat \<Rightarrow> nat \<Rightarrow> behaviour \<Rightarrow> SDKVersionStatus \<Rightarrow> VersionChangeCallback list \<Rightarrow> notification" where
  \<comment> \<open>\<open>this.versionCallbacks.forEach(cb => cb(newStatus))\<close> from index \<open>k\<close> on. \<open>forEach\<close>
      reads the length once, before the first call (\<open>len\<close>), then for each index below it
      calls the element the array holds at that index at that moment, if it still has one.\<close>
  "forEach_from k len beh st cbs =
     (if k < len then
        (if k < length cbs then
           (let cb = cbs ! k;
                (cbs', thrown) = run_callback (beh cb st) cbs
            in if thrown
               then \<lparr>callbacks_after = cbs', invoked = [(cb, st)], threw = Some cb\<rparr>
               else (let r = forEach_from (Suc k) len beh st cbs'
                     in r\<lparr>invoked := (cb, st) # invoked r\<rparr>))
         else forEach_from (Suc k) len beh st cbs)
      else \<lparr>callbacks_after = cbs, invoked = [], threw = None\<rparr>)"
  by pat_completeness auto
termination
  by (relation "measure (\<lambda>(k, len, _, _, _). len - k)") auto

declare forEach_from.simps [simp del]

definition forEach :: "behaviour \<Rightarrow> SDKVersionStatus \<Rightarrow> VersionChangeCallback list \<Rightarrow> notification" where
  "forEach beh st cbs = forEach_from 0 (length cbs) beh st cbs"

subsection \<open>parseVersionHeaders\<close>

definition newStatus :: "int \<Rightarrow> (string \<Rightarrow> string option) \<Rightarrow> SDKVersionStatus" where
  \<comment> \<open>the object built from the headers; \<open>now\<close> is the clock reading of \<open>new Date()\<close>\<close>
  "newStatus now hdrs =
     (let hstatus = hdrs ''x-sdk-status'';
          hlatest = hdrs ''x-sdk-latest'';
          hminimum = hdrs ''x-sdk-minimum'';
          hmessage = hdrs ''x-sdk-message''
      in \<lparr>current = SDK_VERSION,
          latest = or_else hlatest SDK_VERSION,
          minimum = or_else hminimum ''1.0.0'',
          status = or_else hstatus ''unknown'',
          message = (if truthy hmessage then hmessage else None),
          updateRequired = (hstatus = Some ''unsupported'' \<or> hstatus = Some ''deprecated''),
          updateAvailable =
            (if truthy hlatest then compareVersions SDK_VERSION (value_of hlatest) < 0
             else False),
          checkedAt = now\<rparr>)"

definition statusChanged :: "SDKVersionStatus option \<Rightarrow> SDKVersionStatus \<Rightarrow> bool" where
  "statusChanged previous new =
     (case previous of
        None \<Rightarrow> True
      | Some old \<Rightarrow> status old \<noteq> status new \<or> latest old \<noteq> latest new)"

definition carriesVersion :: "(string \<Rightarrow> string option) \<Rightarrow> bool" where
  \<comment> \<open>\<open>status || latest || minimum\<close>\<close>
  "carriesVersion hdrs =
     (truthy (hdrs ''x-sdk-status'') \<or> truthy (hdrs ''x-sdk-latest'') \<or>
      truthy (hdrs ''x-sdk-minimum''))"

definition parseVersionHeaders ::
  "behaviour \<Rightarrow> int \<Rightarrow> 'a AxiosResponse \<Rightarrow> MarketServiceClient \<Rightarrow>
   MarketServiceClient \<times> (VersionChangeCallback \<times> SDKVersionStatus) list \<times> VersionChangeCallback option" where
  \<comment> \<open>the client afterwards, the subscriber calls made, and the subscriber that threw\<close>
  "parseVersionHeaders beh now resp cl =
     (if carriesVersion (headers resp) then
        (let new = newStatus now (headers resp);
             changed = statusChanged (versionStatus cl) new;
             cl' = cl\<lparr>versionStatus := Some new\<rparr>
         in if changed then
              (let r = forEach beh new (versionCallbacks cl')
               in (cl'\<lparr>versionCallbacks := callbacks_after r\<rparr>, invoked r, threw r))
            else (cl', [], None))
      else (cl, [], None))"


fun receive_all ::
  "behaviour \<Rightarrow> (int \<times> 'a AxiosResponse) list \<Rightarrow> MarketServiceClient \<Rightarrow>
   MarketServiceClient \<times> (VersionChangeCallback \<times> SDKVersionStatus) list list" where
  \<comment> \<open>responses arriving one after the other, each with the clock reading at its arrival:
      the client afterwards and the subscriber calls each response caused\<close>
  "receive_all beh [] cl = (cl, [])"
| "receive_all beh ((now, resp) # rest) cl =
     (case parseVersionHeaders beh now resp cl of
        (cl', calls, _) \<Rightarrow>
          (case receive_all beh rest cl' of (cl'', later) \<Rightarrow> (cl'', calls # later)))"

subsection \<open>handleError and the response interceptor\<close>

definition handleError :: "'a AxiosError \<Rightarrow> thrown" where
  \<comment> \<open>\<open>handleError\<close> never returns: the result is what it throws\<close>
  "handleError err =
     (case response err of
        Some resp \<Rightarrow>
          (case response_data resp of
             NoBody \<Rightarrow> TypeError
           | Envelope body \<Rightarrow>
               (let status_code = response_status resp;
                    retry = (if truthy (headers resp ''retry-after'')
                             then Some (parseInt10 (value_of (headers resp ''retry-after'')))
                             else None);
                    code0 = or_else (errorCode body) ''API_ERROR'';
                    code1 = (if status_code = 401 then ''INVALID_API_KEY'' else code0);
                    code2 = (if status_code = 403 then ''INSUFFICIENT_PERMISSIONS'' else code1);
                    code3 = (if status_code = 429 then ''RATE_LIMITED'' else code2)
                in ServiceError
                     \<lparr>msg = or_else (error body) (or_else (api_message body) ''API request failed''),
                      code = code3, statusCode = Some status_code, retryAfter = retry\<rparr>))
      | None \<Rightarrow>
          (if request err then
             ServiceError
               \<lparr>msg = ''No response from Market Service - check network connection'',
                code = ''NETWORK_ERROR'', statusCode = None, retryAfter = None\<rparr>
           else
             ServiceError
               \<lparr>msg = or_else (error_message err) ''Unknown error'',
                code = ''UNKNOWN_ERROR'', statusCode = None, retryAfter = None\<rparr>))"

definition onFulfilled ::
  "behaviour \<Rightarrow> int \<Rightarrow> 'a AxiosResponse \<Rightarrow> MarketServiceClient \<Rightarrow>
   MarketServiceClient \<times> (thrown + 'a AxiosResponse)" where
  \<comment> \<open>the interceptor of a 2xx response\<close>
  "onFulfilled beh now resp cl =
     (case parseVersionHeaders beh now resp cl of
        (cl', _, Some cb) \<Rightarrow> (cl', Inl (SubscriberError cb))
      | (cl', _, None) \<Rightarrow> (cl', Inr resp))"

definition onRejected ::
  "behaviour \<Rightarrow> int \<Rightarrow> 'a AxiosError \<Rightarrow> MarketServiceClient \<Rightarrow>
   MarketServiceClient \<times> (thrown + 'a AxiosResponse)" where
  \<comment> \<open>the interceptor of a failure\<close>
  "onRejected beh now err cl =
     (case response err of
        None \<Rightarrow> (cl, Inl (handleError err))
      | Some resp \<Rightarrow>
          (case parseVersionHeaders beh now resp cl of
             (cl', _, Some cb) \<Rightarrow> (cl', Inl (SubscriberError cb))
           | (cl', _, None) \<Rightarrow> (cl', Inl (handleError err))))"

subsection \<open>Fetching\<close>

text \<open>
  A fetch awaits the transport, which resolves with a response (after the interceptor) or
  rejects with what the interceptor threw. The transport is a parameter: a function from
  the request path to that outcome. A payload declared as an object or an array is truthy
  whenever it is there, so \<open>!data\<close> and \<open>data || []\<close> test \<open>data = None\<close>.
\<close>

definition payload :: "'a AxiosResponse \<Rightarrow> thrown + 'a option" where
  \<comment> \<open>\<open>response.data.data\<close>\<close>
  "payload resp = (case response_data resp of NoBody \<Rightarrow> Inl TypeError | Envelope body \<Rightarrow> Inr (data body))"

definition require_payload :: "MarketServiceError \<Rightarrow> (thrown + 'a AxiosResponse) \<Rightarrow> thrown + 'a" where
  \<comment> \<open>\<open>if (!response.data.data) throw ...; return response.data.data\<close>\<close>
  "require_payload failure outcome =
     (case outcome of
        Inl e \<Rightarrow> Inl e
      | Inr resp \<Rightarrow>
          (case payload resp of
             Inl e \<Rightarrow> Inl e
           | Inr None \<Rightarrow> Inl (ServiceError failure)
           | Inr (Some d) \<Rightarrow> Inr d))"

definition payload_or_empty :: "(thrown + 'a list AxiosResponse) \<Rightarrow> thrown + 'a list" where
  \<comment> \<open>\<open>return response.data.data || []\<close>\<close>
  "payload_or_empty outcome =
     (case outcome of
        Inl e \<Rightarrow> Inl e
      | Inr resp \<Rightarrow>
          (case payload resp of
             Inl e \<Rightarrow> Inl e
           | Inr None \<Rightarrow> Inr []
           | Inr (Some d) \<Rightarrow> Inr d))"

definition not_found :: "string \<Rightarrow> MarketServiceError" where
  "not_found m = \<lparr>msg = m, code = ''NOT_FOUND'', statusCode = Some 404, retryAfter = None\<rparr>"

definition getMarkets ::
  "(string \<Rightarrow> 'f option \<Rightarrow> thrown + 'm list AxiosResponse) \<Rightarrow> 'f option \<Rightarrow> thrown + 'm list" where
  "getMarkets get filters = payload_or_empty (get ''/api/markets'' filters)"

definition getMarketById :: "(string \<Rightarrow> thrown + 'm AxiosResponse) \<Rightarrow> string \<Rightarrow> thrown + 'm" where
  "getMarketById get ident =
     require_payload (not_found ''Market not found'') (get (''/api/markets/'' @ ident))"

definition getCountyByFips :: "(string \<Rightarrow> thrown + 'c AxiosResponse) \<Rightarrow> string \<Rightarrow> thrown + 'c" where
  "getCountyByFips get countyFips =
     require_payload (not_found ''County not found'') (get (''/api/counties/'' @ countyFips))"

definition getServiceableCounties ::
  "(string \<Rightarrow> thrown + 'c list AxiosResponse) \<Rightarrow> string \<Rightarrow> thrown + 'c list" where
  "getServiceableCounties get marketId =
     payload_or_empty (get (''/api/markets/'' @ marketId @ ''/serviceable-counties''))"

definition getCostAdders ::
  "(string \<Rightarrow> thrown + 'c list AxiosResponse) \<Rightarrow> string \<Rightarrow> thrown + 'c list" where
  "getCostAdders get marketId =
     payload_or_empty (get (''/api/markets/'' @ marketId @ ''/cost-adders''))"

subsection \<open>Cost adders\<close>

text \<open>
  A date field holds a \<open>Date\<close> or a string; the filter passes it to \<open>new Date\<close> and compares
  the result with the clock. The field is modelled by the time value \<open>new Date\<close> gives it
  (milliseconds since the epoch), or \<open>InvalidDate\<close> when the string does not parse: an
  invalid date has the time value \<open>NaN\<close> and every comparison with it is false. \<open>None\<close> is a
  field that is absent or falsy.
\<close>

datatype jsdate = InvalidDate | TimeValue int

record CostAdder =
  uuid :: string
  market_id :: string
  adder_name :: string
  adder_type :: string
  cost_value :: jsnum
  applies_to_retail :: bool
  applies_to_lom :: bool
  county_fips :: "string option"
  display_on_proposal :: bool
  display_name :: "string option"
  effective_date :: "jsdate option"
  expiration_date :: "jsdate option"
  active :: bool
  created_at :: string
  updated_at :: string

datatype quote_type = retail | lom

record active_options =
  quoteType :: "quote_type option"
  countyFips :: "string option"

fun date_after :: "jsdate option \<Rightarrow> int \<Rightarrow> bool" where
  \<comment> \<open>\<open>d && new Date(d) > now\<close>\<close>
  "date_after (Some (TimeValue t)) now = (now < t)"
| "date_after _ now = False"

fun date_before :: "jsdate option \<Rightarrow> int \<Rightarrow> bool" where
  \<comment> \<open>\<open>d && new Date(d) < now\<close>\<close>
  "date_before (Some (TimeValue t)) now = (t < now)"
| "date_before _ now = False"

definition keep_adder :: "active_options option \<Rightarrow> int \<Rightarrow> CostAdder \<Rightarrow> bool" where
  \<comment> \<open>the callback of \<open>costAdders.filter\<close>; \<open>now\<close> is its own clock reading\<close>
  "keep_adder options now adder =
     (let qt = (case options of None \<Rightarrow> None | Some opts \<Rightarrow> quoteType opts);
          cf = (case options of None \<Rightarrow> None | Some opts \<Rightarrow> countyFips opts)
      in if \<not> active adder then False
         else if qt = Some retail \<and> \<not> applies_to_retail adder then False
         else if qt = Some lom \<and> \<not> applies_to_lom adder then False
         else if truthy cf \<and> truthy (county_fips adder) \<and> county_fips adder \<noteq> cf then False
         else if date_after (effective_date adder) now then False
         else if date_before (expiration_date adder) now then False
         else True)"

fun filter_adders :: "active_options option \<Rightarrow> (nat \<Rightarrow> int) \<Rightarrow> nat \<Rightarrow> CostAdder list \<Rightarrow> CostAdder list" where
  \<comment> \<open>\<open>costAdders.filter(...)\<close>: the callback runs once per element, in order, and each run
      reads the clock; \<open>clock k\<close> is the reading of the run on the element at index \<open>k\<close>\<close>
  "filter_adders options clock k [] = []"
| "filter_adders options clock k (adder # rest) =
     (if keep_adder options (clock k) adder
      then adder # filter_adders options clock (Suc k) rest
      else filter_adders options clock (Suc k) rest)"

definition getActiveCostAdders ::
  "(string \<Rightarrow> thrown + CostAdder list AxiosResponse) \<Rightarrow> (nat \<Rightarrow> int) \<Rightarrow> string \<Rightarrow>
   active_options option \<Rightarrow> thrown + CostAdder list" where
  "getActiveCostAdders get clock marketId options =
     (case getCostAdders get marketId of
        Inl e \<Rightarrow> Inl e
      | Inr costAdders \<Rightarrow> Inr (filter_adders options clock 0 costAdders))"

record breakdown_entry =
  entry_name :: string
  entry_type :: string
  cost :: jsnum

record adder_total =
  totalAdderCost :: jsnum
  breakdown :: "breakdown_entry list"

definition adder_cost :: "CostAdder \<Rightarrow> jsnum \<Rightarrow> jsnum \<Rightarrow> jsnum" where
  \<comment> \<open>the \<open>switch\<close> on \<open>adder.adder_type\<close>; it has no default, so \<open>cost\<close> stays 0 otherwise\<close>
  "adder_cost adder basePrice roofSquares =
     (if adder_type adder = ''percentage'' then js_mul basePrice (js_div (cost_value adder) (Fin 100))
      else if adder_type adder = ''fixed'' then cost_value adder
      else if adder_type adder = ''per_square'' then js_mul (cost_value adder) roofSquares
      else Fin 0)"

fun calculate_loop :: "CostAdder list \<Rightarrow> jsnum \<Rightarrow> jsnum \<Rightarrow> adder_total \<Rightarrow> adder_total" where
  \<comment> \<open>the loop \<open>for (const adder of costAdders)\<close> on the two accumulators\<close>
  "calculate_loop [] basePrice roofSquares acc = acc"
| "calculate_loop (adder # rest) basePrice roofSquares acc =
     (let c = adder_cost adder basePrice roofSquares
      in calculate_loop rest basePrice roofSquares
           \<lparr>totalAdderCost = js_add (totalAdderCost acc) c,
            breakdown = breakdown acc @
              [\<lparr>entry_name = or_else (display_name adder) (adder_name adder),
                entry_type = adder_type adder, cost = c\<rparr>]\<rparr>)"

definition calculateCostAdders :: "CostAdder list \<Rightarrow> jsnum \<Rightarrow> jsnum \<Rightarrow> adder_total" where
  "calculateCostAdders costAdders basePrice roofSquares =
     calculate_loop costAdders basePrice roofSquares \<lparr>totalAdderCost = Fin 0, breakdown = []\<rparr>"


subsection \<open>Observations used in the statements\<close>

definition thrown_code :: "thrown \<Rightarrow> string option" where
  \<comment> \<open>the \<open>code\<close> of a thrown \<open>MarketServiceError\<close>\<close>
  "thrown_code t = (case t of ServiceError e \<Rightarrow> Some (code e) | _ \<Rightarrow> None)"

definition success_without_payload :: "'a AxiosResponse \<Rightarrow> bool" where
  \<comment> \<open>a success envelope whose \<open>data\<close> is absent or \<open>null\<close>\<close>
  "success_without_payload resp =
     (case response_data resp of
        NoBody \<Rightarrow> False
      | Envelope body \<Rightarrow> api_status body = ''success'' \<and> data body = None)"

text \<open>
  The comparison in the words of the specification: the components are the numbers the
  pieces between the dots stand for, a missing component is 0, the first pair of unequal
  components decides, and three equal pairs are equal.
\<close>

definition component :: "jsnum list \<Rightarrow> nat \<Rightarrow> jsnum" where
  "component ps i = (if i < length ps then ps ! i else Fin 0)"

definition decide :: "jsnum \<Rightarrow> jsnum \<Rightarrow> int" where
  "decide x y = (if js_lt x y then - 1 else 1)"

definition semantic_compare :: "jsnum list \<Rightarrow> jsnum list \<Rightarrow> int" where
  "semantic_compare pa pb =
     (if component pa 0 \<noteq> component pb 0 then decide (component pa 0) (component pb 0)
      else if component pa 1 \<noteq> component pb 1 then decide (component pa 1) (component pb 1)
      else if component pa 2 \<noteq> component pb 2 then decide (component pa 2) (component pb 2)
      else 0)"

definition numeric :: "string \<Rightarrow> bool" where
  \<comment> \<open>every component of the version string is read as a number by \<open>Number\<close>\<close>
  "numeric v = list_all (\<lambda>seg. Number seg \<noteq> NaN) (js_split CHR ''.'' v)"

fun zero_nan :: "jsnum \<Rightarrow> jsnum" where
  \<comment> \<open>a component that is not a number, read as 0\<close>
  "zero_nan NaN = Fin 0"
| "zero_nan v = v"

text \<open>Subscribers that only register further callbacks, and subscribers that do nothing
  to the client.\<close>

fun is_subscribe :: "cb_action \<Rightarrow> bool" where
  "is_subscribe (Subscribe c) = True"
| "is_subscribe _ = False"

definition cost_view :: "CostAdder \<Rightarrow> string \<times> string \<times> jsnum" where
  \<comment> \<open>what \<open>calculateCostAdders\<close> reads of an adder\<close>
  "cost_view adder = (or_else (display_name adder) (adder_name adder), adder_type adder, cost_value adder)"

subsection \<open>Concrete inputs\<close>

definition passive_callbacks :: behaviour where
  \<comment> \<open>callbacks that leave the client alone\<close>
  "passive_callbacks cb st = []"

definition first_unsubscribes_itself :: behaviour where
  \<comment> \<open>callback 0 calls its own unsubscribe function; the others leave the client alone\<close>
  "first_unsubscribes_itself cb st = (if cb = 0 then [Unsubscribe 0] else [])"

definition no_payload :: "'a AxiosResponse" where
  "no_payload =
     \<lparr>response_data = Envelope \<lparr>api_status = ''success'', data = None, count = None,
        api_message = None, error = None, errorCode = None\<rparr>,
      response_status = 200, headers = Map.empty\<rparr>"

definition deprecated_response :: "unit AxiosResponse" where
  "deprecated_response =
     no_payload\<lparr>headers := [''x-sdk-status'' \<mapsto> ''deprecated'', ''x-sdk-latest'' \<mapsto> ''1.2.0'']\<rparr>"

definition current_response :: "unit AxiosResponse" where
  "current_response =
     no_payload\<lparr>headers := [''x-sdk-status'' \<mapsto> ''current'', ''x-sdk-latest'' \<mapsto> ''1.2.0'']\<rparr>"

definition deprecated_status :: "int \<Rightarrow> SDKVersionStatus" where
  "deprecated_status now =
     \<lparr>current = ''1.1.0'', latest = ''1.2.0'', minimum = ''1.0.0'', status = ''deprecated'',
      message = None, updateRequired = True, updateAvailable = True, checkedAt = now\<rparr>"

definition current_status :: "int \<Rightarrow> SDKVersionStatus" where
  "current_status now =
     \<lparr>current = ''1.1.0'', latest = ''1.2.0'', minimum = ''1.0.0'', status = ''current'',
      message = None, updateRequired = False, updateAvailable = True, checkedAt = now\<rparr>"

definition two_subscribers :: MarketServiceClient where
  \<comment> \<open>a client built with a test key for development; callbacks 0 and 1 are registered\<close>
  "two_subscribers =
     \<lparr>config = \<lparr>environment = Some development, baseURL = None, apiKey = ''mk_test_abc'',
                 jwtToken = None, timeout = None, clientAppName = None,
                 onVersionChange = Some 0\<rparr>,
      versionCallbacks = [0, 1], versionStatus = None, this_environment = development,
      this_baseURL = ''http://localhost:3002'', warnings = []\<rparr>"

definition expiring_adder :: CostAdder where
  \<comment> \<open>an active adder that expires at the instant 1000\<close>
  "expiring_adder =
     \<lparr>uuid = ''a1'', market_id = ''m1'', adder_name = ''Steep roof'', adder_type = ''fixed'',
      cost_value = Fin 500, applies_to_retail = True, applies_to_lom = True,
      county_fips = None, display_on_proposal = True, display_name = None,
      effective_date = None, expiration_date = Some (TimeValue 1000), active = True,
      created_at = ''2024-01-01'', updated_at = ''2024-01-01''\<rparr>"

definition serves_expiring_adder :: "string \<Rightarrow> thrown + CostAdder list AxiosResponse" where
  "serves_expiring_adder path =
     Inr \<lparr>response_data = Envelope \<lparr>api_status = ''success'', data = Some [expiring_adder],
            count = Some 1, api_message = None, error = None, errorCode = None\<rparr>,
          response_status = 200, headers = Map.empty\<rparr>"

definition clock_at :: "int \<Rightarrow> nat \<Rightarrow> int" where
  \<comment> \<open>a clock that reads the same instant at every reading\<close>
  "clock_at t k = t"

section \<open>Properties\<close>

subsection \<open>Arithmetic on concrete doubles\<close>

lemmas double_eval =
  toDouble_def round_pos_def floor_log2_def pow2_def round_half_even_def Let_def ilog2.simps

lemma ten_percent: "js_div (Fin 10) (Fin 100) = Fin (3602879701896397 / 36028797018963968)"
  by (simp add: double_eval)

lemma ten_percent_of_10000:
  "js_mul (Fin 10000) (Fin (3602879701896397 / 36028797018963968)) = Fin 1000"
  by (simp add: double_eval)

lemma twenty_times_five: "js_mul (Fin 20) (Fin 5) = Fin 100"
  by (simp add: double_eval)

lemma running_total:
  "js_add (Fin 0) (Fin 500) = Fin 500"
  "js_add (Fin 500) (Fin 1000) = Fin 1500"
  "js_add (Fin 1500) (Fin 100) = Fin 1600"
  by (simp_all add: double_eval)

subsection \<open>Base URL\<close>

text \<open>
  Claim C1. The claim: the resolved base URL is the explicit \<open>baseURL\<close> if set, otherwise
  the default URL of the configured environment, otherwise the default URL of the
  environment inferred from the API key (\<open>mk_live_\<close> means production). The constructor
  infers the environment from the key for \<open>this.environment\<close>, but \<open>resolveBaseURL\<close> does not:
  with no \<open>baseURL\<close> and no \<open>environment\<close>, a client built with a \<open>mk_live_\<close> key has the
  environment production and the base URL of development.
\<close>

theorem live_key_resolves_to_development_url:
  "new_MarketServiceClient
     \<lparr>environment = None, baseURL = None, apiKey = ''mk_live_abc'', jwtToken = None,
      timeout = None, clientAppName = None, onVersionChange = None\<rparr> =
   Inr \<lparr>config =
          \<lparr>environment = None, baseURL = None, apiKey = ''mk_live_abc'', jwtToken = None,
           timeout = None, clientAppName = None, onVersionChange = None\<rparr>,
        versionCallbacks = [], versionStatus = None, this_environment = production,
        this_baseURL = ''http://localhost:3002'', warnings = []\<rparr> \<and>
   SERVICE_URLS production = ''https://market-service.dripedge.io''"
  by (simp add: new_MarketServiceClient_def resolveBaseURL_def detectEnvironmentFromKey_def
      validateKeyEnvironment_def truthy_def)

subsection \<open>Cost-adder sum\<close>

text \<open>
  Claim C9. For a fixed adder of 500, a percentage adder of 10 on a base price of 10000 and
  a per-square adder of 20 with 5 squares, in this order and whatever their other fields,
  \<open>calculateCostAdders\<close> returns the total 1600 and a breakdown of exactly three entries in
  the order of the input, with the costs 500, 1000 and 100.
\<close>

theorem calculateCostAdders_example:
  "calculateCostAdders
     [f\<lparr>adder_type := ''fixed'', cost_value := Fin 500\<rparr>,
      p\<lparr>adder_type := ''percentage'', cost_value := Fin 10\<rparr>,
      s\<lparr>adder_type := ''per_square'', cost_value := Fin 20\<rparr>]
     (Fin 10000) (Fin 5) =
   \<lparr>totalAdderCost = Fin 1600,
    breakdown =
      [\<lparr>entry_name = or_else (display_name f) (adder_name f),
        entry_type = ''fixed'', cost = Fin 500\<rparr>,
       \<lparr>entry_name = or_else (display_name p) (adder_name p),
        entry_type = ''percentage'', cost = Fin 1000\<rparr>,
       \<lparr>entry_name = or_else (display_name s) (adder_name s),
        entry_type = ''per_square'', cost = Fin 100\<rparr>]\<rparr>"
  by (simp add: calculateCostAdders_def adder_cost_def ten_percent ten_percent_of_10000
      twenty_times_five running_total del: js_add.simps js_mul.simps js_div.simps)


subsection \<open>Error codes\<close>

text \<open>
  Claim C2. The claim: on a response with a non-2xx status the error's code is the
  envelope's machine code whenever the envelope has one, and is derived from the status
  (401, 403, 429, else \<open>API_ERROR\<close>) only when it has none. \<open>handleError\<close> starts from
  \<open>data.errorCode || 'API_ERROR'\<close> and then overwrites the code on the statuses 401, 403
  and 429 without looking at the envelope. The codes \<open>EXPIRED_API_KEY\<close>, \<open>INVALID_JWT\<close> and
  \<open>EXPIRED_JWT\<close>, which \<open>isAuthError\<close> tests and which only the envelope can deliver, are
  thereby lost on these statuses: a 401 response whose envelope carries
  \<open>EXPIRED_API_KEY\<close> yields the code \<open>INVALID_API_KEY\<close>.
\<close>

theorem envelope_code_lost_on_401:
  "thrown_code (handleError
     \<lparr>response = Some
        \<lparr>response_data = Envelope
           \<lparr>api_status = ''error'', data = None :: unit option, count = None,
            api_message = None, error = None, errorCode = Some ''EXPIRED_API_KEY''\<rparr>,
         response_status = 401, headers = Map.empty\<rparr>,
      request = True, error_message = None\<rparr>) = Some ''INVALID_API_KEY'' \<and>
   thrown_code (handleError
     \<lparr>response = Some
        \<lparr>response_data = Envelope
           \<lparr>api_status = ''error'', data = None :: unit option, count = None,
            api_message = None, error = None, errorCode = Some ''EXPIRED_API_KEY''\<rparr>,
         response_status = 401, headers = Map.empty\<rparr>,
      request = True, error_message = None\<rparr>) \<noteq> Some ''EXPIRED_API_KEY''"
  by (simp add: handleError_def thrown_code_def or_else_def truthy_def)

text \<open>
  What \<open>handleError\<close> computes on every response with an envelope. On a status other than
  401, 403 and 429 it is what the claim says: the envelope's machine code when it has a
  non-empty one, and \<open>API_ERROR\<close> otherwise. On those three statuses the code comes from
  the status alone.
\<close>

theorem handleError_code:
  "thrown_code (handleError
     \<lparr>response = Some \<lparr>response_data = Envelope body, response_status = st, headers = hs\<rparr>,
      request = rq, error_message = m\<rparr>) =
   Some (if st = 401 then ''INVALID_API_KEY''
         else if st = 403 then ''INSUFFICIENT_PERMISSIONS''
         else if st = 429 then ''RATE_LIMITED''
         else if truthy (errorCode body) then value_of (errorCode body)
         else ''API_ERROR'')"
  by (simp add: handleError_def thrown_code_def or_else_def truthy_def value_of_def Let_def
      split: option.splits)

theorem handleError_code_witness:
  "thrown_code (handleError
     \<lparr>response = Some
        \<lparr>response_data = Envelope
           \<lparr>api_status = ''error'', data = None :: unit option, count = None,
            api_message = None, error = None, errorCode = Some ''EXPIRED_API_KEY''\<rparr>,
         response_status = 400, headers = Map.empty\<rparr>,
      request = True, error_message = None\<rparr>) = Some ''EXPIRED_API_KEY''"
  using handleError_code [of
      "\<lparr>api_status = ''error'', data = None :: unit option, count = None,
        api_message = None, error = None, errorCode = Some ''EXPIRED_API_KEY''\<rparr>"
      400 Map.empty True None]
  by (simp add: truthy_def value_of_def)

subsection \<open>Envelopes without a payload\<close>

text \<open>
  Claim C7. When the transport resolves with a success envelope whose \<open>data\<close> is absent or
  \<open>null\<close>, a single-entity fetch (\<open>getMarketById\<close>, \<open>getCountyByFips\<close>) throws the typed
  error with the code \<open>NOT_FOUND\<close> and the status 404, and a list fetch (\<open>getMarkets\<close>,
  \<open>getCostAdders\<close>) returns the empty list.
\<close>

theorem absent_payload:
  assumes "getOne (''/api/markets/'' @ ident) = Inr r1" and "success_without_payload r1"
    and "getCounty (''/api/counties/'' @ fips) = Inr r2" and "success_without_payload r2"
    and "getMany ''/api/markets'' filters = Inr r3" and "success_without_payload r3"
    and "getAdders (''/api/markets/'' @ marketId @ ''/cost-adders'') = Inr r4"
    and "success_without_payload r4"
  shows "getMarketById getOne ident =
           Inl (ServiceError \<lparr>msg = ''Market not found'', code = ''NOT_FOUND'',
                               statusCode = Some 404, retryAfter = None\<rparr>) \<and>
         getCountyByFips getCounty fips =
           Inl (ServiceError \<lparr>msg = ''County not found'', code = ''NOT_FOUND'',
                               statusCode = Some 404, retryAfter = None\<rparr>) \<and>
         getMarkets getMany filters = Inr [] \<and>
         getCostAdders getAdders marketId = Inr []"
  using assms
  by (auto simp: getMarketById_def getCountyByFips_def getMarkets_def getCostAdders_def
      require_payload_def payload_or_empty_def payload_def not_found_def
      success_without_payload_def split: body.splits)

theorem absent_payload_witness:
  "success_without_payload (no_payload :: unit AxiosResponse) \<and>
   getMarketById (\<lambda>path. Inr (no_payload :: unit AxiosResponse)) ''m1'' =
     Inl (ServiceError \<lparr>msg = ''Market not found'', code = ''NOT_FOUND'',
                         statusCode = Some 404, retryAfter = None\<rparr>) \<and>
   getMarkets (\<lambda>path (filters :: unit option). Inr (no_payload :: unit list AxiosResponse)) None =
     Inr []"
proof -
  have s: "success_without_payload (no_payload :: unit AxiosResponse)"
    "success_without_payload (no_payload :: unit list AxiosResponse)"
    by (simp_all add: success_without_payload_def no_payload_def)
  from absent_payload [of "\<lambda>path. Inr (no_payload :: unit AxiosResponse)" "''m1''" no_payload
      "\<lambda>path. Inr (no_payload :: unit AxiosResponse)" "''08031''" no_payload
      "\<lambda>path (filters :: unit option). Inr (no_payload :: unit list AxiosResponse)" None
      no_payload
      "\<lambda>path. Inr (no_payload :: unit list AxiosResponse)" "''m1''" no_payload] s
  show ?thesis
    by simp
qed


subsection \<open>Reading numbers\<close>

lemmas number_eval =
  Number_def trim_def isStrWhiteSpaceChar_def nonDecimalIntegerLiteral_def allDigits_def
  digitValue_def digitsValue_def strDecimalLiteral_def strUnsignedDecimalLiteral_def
  isDecimalDigit_def exponentPart_def pow10_def

lemmas compare_eval = compareVersions_def compareFrom.simps part_def SDK_VERSION_def

lemma digit_char:
  assumes "digitValue c < 10"
  shows "48 \<le> (of_char c :: int) \<and> (of_char c :: int) \<le> 57"
  using assms by (auto simp: digitValue_def Let_def split: if_splits)

lemma digit_not_space: "digitValue c < 10 \<Longrightarrow> \<not> isStrWhiteSpaceChar c"
  using digit_char [of c] by (auto simp: isStrWhiteSpaceChar_def)

lemma digit_neq:
  assumes "digitValue c < 10"
  shows "c \<noteq> CHR ''+''" "c \<noteq> CHR ''-''" "c \<noteq> CHR ''x''" "c \<noteq> CHR ''X''"
    "c \<noteq> CHR ''o''" "c \<noteq> CHR ''O''" "c \<noteq> CHR ''b''" "c \<noteq> CHR ''B''" "c \<noteq> CHR ''I''"
  using digit_char [OF assms] by auto

lemma digitValue_nonneg: "0 \<le> digitValue c"
  by (simp add: digitValue_def Let_def)

lemma foldl_digits_nonneg:
  "0 \<le> acc \<Longrightarrow> 0 \<le> foldl (\<lambda>a c. a * 10 + digitValue c) acc s"
  by (induction s arbitrary: acc) (simp_all add: digitValue_nonneg)

lemma digitsValue_nonneg: "0 \<le> digitsValue 10 s"
  by (simp add: digitsValue_def foldl_digits_nonneg)

lemma trim_digits:
  assumes "allDigits 10 s"
  shows "trim s = s"
proof -
  from assms have ne: "s \<noteq> []" and all: "\<forall>c\<in>set s. digitValue c < 10"
    by (auto simp: allDigits_def list_all_iff)
  have "\<not> isStrWhiteSpaceChar (hd s)" using ne all digit_not_space by simp
  then have 1: "dropWhile isStrWhiteSpaceChar s = s"
    using ne by (cases s) auto
  have "\<not> isStrWhiteSpaceChar (hd (rev s))"
    using ne all digit_not_space by (simp add: hd_rev)
  then have 2: "dropWhile isStrWhiteSpaceChar (rev s) = rev s"
    using ne by (cases "rev s") auto
  show ?thesis by (simp add: trim_def 1 2)
qed

lemma nonDecimal_digits:
  assumes "allDigits 10 s"
  shows "nonDecimalIntegerLiteral s = None"
proof (cases s)
  case Nil
  then show ?thesis by (simp add: nonDecimalIntegerLiteral_def)
next
  case (Cons z r)
  show ?thesis
  proof (cases r)
    case Nil
    with Cons show ?thesis by (simp add: nonDecimalIntegerLiteral_def)
  next
    case (Cons x ds)
    with \<open>s = z # r\<close> assms have "digitValue x < 10"
      by (simp add: allDigits_def)
    from digit_neq [OF this] Cons \<open>s = z # r\<close> show ?thesis
      by (simp add: nonDecimalIntegerLiteral_def)
  qed
qed

lemma Number_digits:
  assumes "allDigits 10 s"
  shows "Number s = toDouble (of_int (digitsValue 10 s))"
proof -
  from assms have ne: "s \<noteq> []" and all: "\<forall>c\<in>set s. digitValue c < 10"
    by (auto simp: allDigits_def list_all_iff)
  then obtain c cs where s: "s = c # cs" by (cases s) auto
  with all have c: "digitValue c < 10" by simp
  have inf: "s \<noteq> ''Infinity''"
    using digit_neq(9) [OF c] s by auto
  have tw: "takeWhile isDecimalDigit s = s" "dropWhile isDecimalDigit s = []"
    using all by (auto simp: isDecimalDigit_def)
  have "strUnsignedDecimalLiteral s = toDouble (of_int (digitsValue 10 s))"
    using inf ne by (simp add: strUnsignedDecimalLiteral_def tw exponentPart_def pow10_def Let_def)
  moreover have "strDecimalLiteral s = strUnsignedDecimalLiteral s"
    using digit_neq(1,2) [OF c] by (simp add: strDecimalLiteral_def s)
  ultimately show ?thesis
    using ne by (simp add: Number_def trim_digits [OF assms] nonDecimal_digits [OF assms])
qed

lemma toDouble_not_NaN: "toDouble q \<noteq> NaN"
proof -
  have "round_pos r \<noteq> NaN" for r
    by (simp add: round_pos_def Let_def)
  moreover have "js_neg v \<noteq> NaN" if "v \<noteq> NaN" for v
    using that by (cases v) auto
  ultimately show ?thesis by (simp add: toDouble_def)
qed

lemma ilog2_bounds:
  "1 \<le> n \<Longrightarrow> 0 \<le> ilog2 n \<and> 2 ^ nat (ilog2 n) \<le> n \<and> n < 2 * 2 ^ nat (ilog2 n)"
proof (induction n rule: ilog2.induct)
  case (1 n)
  show ?case
  proof (cases "n < 2")
    case True
    with "1.prems" show ?thesis by (simp add: ilog2.simps [of n])
  next
    case False
    then have h: "1 \<le> n div 2" by simp
    from "1.IH" [OF False h]
    have ih: "0 \<le> ilog2 (n div 2)" "2 ^ nat (ilog2 (n div 2)) \<le> n div 2"
      "n div 2 < 2 * 2 ^ nat (ilog2 (n div 2))" by simp_all
    have eq: "ilog2 n = 1 + ilog2 (n div 2)"
      using False by (simp add: ilog2.simps [of n])
    have p: "(2::int) ^ nat (1 + ilog2 (n div 2)) = 2 * 2 ^ nat (ilog2 (n div 2))"
      using ih(1) by (simp add: nat_add_distrib)
    show ?thesis
      unfolding eq p using ih by auto
  qed
qed

lemma round_half_even_of_int: "round_half_even (of_int k) = k"
  by (simp add: round_half_even_def)

text \<open>Integers up to \<open>2^53\<close> are doubles: rounding leaves them as they are.\<close>

lemma toDouble_exact:
  assumes "0 \<le> n" "n \<le> 2 ^ 53"
  shows "toDouble (of_int n) = Fin (of_int n)"
proof (cases "n = 0")
  case True
  then show ?thesis by (simp add: toDouble_def)
next
  case False
  with assms have n1: "1 \<le> n" by simp
  define e where "e = ilog2 n"
  from ilog2_bounds [OF n1] have e0: "0 \<le> e" and lo: "2 ^ nat e \<le> n" and hi: "n < 2 * 2 ^ nat e"
    by (simp_all add: e_def)
  have le53: "(2::int) ^ nat e \<le> 2 ^ 53" using lo assms(2) by linarith
  have "nat e \<le> 53"
  proof (rule power_le_imp_le_exp)
    show "(1::int) < 2" by simp
    show "(2::int) ^ nat e \<le> 2 ^ 53" by (rule le53)
  qed
  then have e53: "e \<le> 53" using e0 by simp
  have fl: "floor_log2 (of_int n) = e"
    using n1 by (simp add: floor_log2_def e_def)
  have small: "\<not> pow2 1024 \<le> (of_int n :: real)"
  proof -
    have "(of_int n :: real) \<le> 2 ^ 53"
      using assms(2) by (metis of_int_le_iff of_int_numeral of_int_power)
    moreover have "(2::real) ^ 53 < 2 ^ 1024" by simp
    ultimately show ?thesis by (simp add: pow2_def)
  qed
  have "\<exists>k. (of_int n :: real) / pow2 (e - 52) = of_int k \<and>
            of_int k * pow2 (e - 52) = (of_int n :: real)"
  proof (cases "e \<le> 52")
    case True
    then have "pow2 (e - 52) = 1 / 2 ^ nat (52 - e)"
      by (cases "e = 52") (simp_all add: pow2_def)
    then show ?thesis
      by (intro exI [of _ "n * 2 ^ nat (52 - e)"]) simp
  next
    case False
    with e53 have e: "e = 53" by simp
    with lo hi assms(2) have "n = 2 ^ 53" by simp
    then show ?thesis
      by (intro exI [of _ "2 ^ 52"]) (simp add: e pow2_def)
  qed
  then obtain k where k: "(of_int n :: real) / pow2 (e - 52) = of_int k"
    "of_int k * pow2 (e - 52) = (of_int n :: real)" by blast
  have "round_pos (of_int n) = Fin (of_int n)"
    using e0 small by (simp add: round_pos_def fl Let_def max_def k round_half_even_of_int)
  then show ?thesis using n1 by (simp add: toDouble_def)
qed

subsection \<open>Version comparison\<close>

lemma compareFrom_unroll:
  "compareFrom 0 pa pb =
     (if js_lt (part pa 0) (part pb 0) then - 1
      else if js_lt (part pb 0) (part pa 0) then 1
      else if js_lt (part pa 1) (part pb 1) then - 1
      else if js_lt (part pb 1) (part pa 1) then 1
      else if js_lt (part pa 2) (part pb 2) then - 1
      else if js_lt (part pb 2) (part pa 2) then 1
      else 0)"
  by (simp add: compareFrom.simps [of 0] compareFrom.simps [of "Suc 0"]
      compareFrom.simps [of "Suc (Suc 0)"] compareFrom.simps [of "Suc (Suc (Suc 0))"] Let_def
      eval_nat_numeral)

lemma js_lt_irrefl: "\<not> js_lt x x"
  by (cases x) simp_all

lemma js_lt_asym: "js_lt x y \<Longrightarrow> \<not> js_lt y x"
  by (cases x; cases y) simp_all

lemma js_trichotomy: "x \<noteq> NaN \<Longrightarrow> y \<noteq> NaN \<Longrightarrow> x \<noteq> y \<Longrightarrow> js_lt x y \<or> js_lt y x"
  by (cases x; cases y) auto

lemma component_not_NaN: "list_all (\<lambda>v. v \<noteq> NaN) ps \<Longrightarrow> component ps i \<noteq> NaN"
  by (simp add: component_def list_all_length)

lemma part_component: "list_all (\<lambda>v. v \<noteq> NaN) ps \<Longrightarrow> part ps i = component ps i"
  by (cases "ps ! i") (auto simp: part_def component_def list_all_length)

lemma compareFrom_semantic:
  assumes "list_all (\<lambda>v. v \<noteq> NaN) pa" "list_all (\<lambda>v. v \<noteq> NaN) pb"
  shows "compareFrom 0 pa pb = semantic_compare pa pb"
  using js_trichotomy [OF component_not_NaN [OF assms(1)] component_not_NaN [OF assms(2)]]
    js_lt_asym js_lt_irrefl
  unfolding compareFrom_unroll semantic_compare_def decide_def
    part_component [OF assms(1)] part_component [OF assms(2)]
  by (auto split: if_splits)

lemma part_zero_nan: "part (map zero_nan ps) i = part ps i"
  by (cases "ps ! i") (auto simp: part_def)

lemma compareFrom_zero_nan:
  "compareFrom 0 (map zero_nan pa) (map zero_nan pb) = compareFrom 0 pa pb"
  by (simp add: compareFrom_unroll part_zero_nan)

lemma compare_examples:
  "compareVersions ''1.2.0'' ''1.10.0'' = - 1"
  "compareVersions ''1.0.0'' ''1.0.0'' = 0"
  "compareVersions ''2.0.0'' ''1.9.9'' = 1"
  "compareVersions ''1.2'' ''1.2.0'' = 0"
  "compareVersions ''1.x.3'' ''1.0.3'' = 0"
  by (simp_all add: compare_eval number_eval double_eval)

lemma numeric_examples: "numeric ''1.2.0''" "numeric ''1.10.0''"
  by (simp_all add: numeric_def number_eval double_eval)

text \<open>
  Claim C6. For version strings whose components are numeric, \<open>compareVersions\<close> splits
  at the dots and compares the first three components pairwise, a missing component
  counting as 0: the first unequal pair decides, and three equal pairs give 0. A component
  written in decimal digits is numeric and stands for its decimal value (exactly, up to
  \<open>2^53\<close>; rounded to the nearest double beyond). The four examples of the specification
  hold.
\<close>

theorem compareVersions_numeric:
  "(numeric a \<and> numeric b \<longrightarrow>
      compareVersions a b =
        semantic_compare (map Number (js_split CHR ''.'' a)) (map Number (js_split CHR ''.'' b))) \<and>
   (allDigits 10 seg \<longrightarrow>
      Number seg \<noteq> NaN \<and> Number seg = toDouble (of_int (digitsValue 10 seg))) \<and>
   (allDigits 10 seg \<and> digitsValue 10 seg \<le> 2 ^ 53 \<longrightarrow>
      Number seg = Fin (of_int (digitsValue 10 seg))) \<and>
   compareVersions ''1.2.0'' ''1.10.0'' < 0 \<and>
   compareVersions ''1.0.0'' ''1.0.0'' = 0 \<and>
   compareVersions ''2.0.0'' ''1.9.9'' > 0 \<and>
   compareVersions ''1.2'' ''1.2.0'' = 0"
proof -
  have general: "compareVersions a b =
      semantic_compare (map Number (js_split CHR ''.'' a)) (map Number (js_split CHR ''.'' b))"
    if "numeric a" "numeric b"
  proof -
    from that have "list_all (\<lambda>v. v \<noteq> NaN) (map Number (js_split CHR ''.'' a))"
      "list_all (\<lambda>v. v \<noteq> NaN) (map Number (js_split CHR ''.'' b))"
      by (simp_all add: numeric_def list_all_iff)
    then show ?thesis
      unfolding compareVersions_def by (rule compareFrom_semantic)
  qed
  have digits: "Number seg \<noteq> NaN \<and> Number seg = toDouble (of_int (digitsValue 10 seg))"
    if "allDigits 10 seg"
    using Number_digits [OF that] toDouble_not_NaN by simp
  have exact: "Number seg = Fin (of_int (digitsValue 10 seg))"
    if "allDigits 10 seg" "digitsValue 10 seg \<le> 2 ^ 53"
    using Number_digits [OF that(1)] toDouble_exact [OF digitsValue_nonneg that(2)] by simp
  from general have 1: "numeric a \<and> numeric b \<longrightarrow>
      compareVersions a b =
        semantic_compare (map Number (js_split CHR ''.'' a)) (map Number (js_split CHR ''.'' b))"
    by blast
  from digits have 2: "allDigits 10 seg \<longrightarrow>
      Number seg \<noteq> NaN \<and> Number seg = toDouble (of_int (digitsValue 10 seg))"
    by blast
  from exact have 3: "allDigits 10 seg \<and> digitsValue 10 seg \<le> 2 ^ 53 \<longrightarrow>
      Number seg = Fin (of_int (digitsValue 10 seg))"
    by blast
  show ?thesis
    by (intro conjI) (rule 1, rule 2, rule 3, simp_all add: compare_examples)
qed

theorem compareVersions_numeric_witness:
  "numeric ''1.2.0'' \<and> numeric ''1.10.0'' \<and>
   compareVersions ''1.2.0'' ''1.10.0'' =
     semantic_compare (map Number (js_split CHR ''.'' ''1.2.0''))
       (map Number (js_split CHR ''.'' ''1.10.0'')) \<and>
   allDigits 10 ''10'' \<and> digitsValue 10 ''10'' \<le> 2 ^ 53 \<and> Number ''10'' = Fin 10"
proof -
  have d: "allDigits 10 ''10''" "digitsValue 10 ''10'' = 10"
    by (simp_all add: allDigits_def digitValue_def digitsValue_def)
  have d3: "digitsValue 10 ''10'' \<le> 2 ^ 53"
    by (simp add: d(2))
  note t = compareVersions_numeric [of "''1.2.0''" "''1.10.0''" "''10''"]
  from t numeric_examples
  have a: "compareVersions ''1.2.0'' ''1.10.0'' =
     semantic_compare (map Number (js_split CHR ''.'' ''1.2.0''))
       (map Number (js_split CHR ''.'' ''1.10.0''))"
    by blast
  from t d(1) d3 have "Number ''10'' = Fin (of_int (digitsValue 10 ''10''))"
    by blast
  then have b: "Number ''10'' = Fin 10"
    by (simp add: d(2))
  show ?thesis
    by (intro conjI) (rule numeric_examples a d(1) d3 b)+
qed

text \<open>
  Claim C10. \<open>compareVersions\<close> is total: it returns -1, 0 or 1 for every pair of
  strings. A component that \<open>Number\<close> does not read as a number (\<open>NaN\<close>) counts as 0: the
  result is the one obtained with every such component replaced by 0, as in
  \<open>compareVersions('1.x.3', '1.0.3') = 0\<close>.
\<close>

theorem compareVersions_non_numeric:
  "compareVersions a b \<in> {- 1, 0, 1} \<and>
   compareVersions a b =
     compareFrom 0 (map zero_nan (map Number (js_split CHR ''.'' a)))
       (map zero_nan (map Number (js_split CHR ''.'' b))) \<and>
   (i < length ps \<and> ps ! i = NaN \<longrightarrow> part ps i = Fin 0) \<and>
   Number ''x'' = NaN \<and>
   compareVersions ''1.x.3'' ''1.0.3'' = 0"
proof -
  have 1: "compareVersions a b \<in> {- 1, 0, 1}"
    by (simp add: compareVersions_def compareFrom_unroll)
  have 2: "compareVersions a b =
     compareFrom 0 (map zero_nan (map Number (js_split CHR ''.'' a)))
       (map zero_nan (map Number (js_split CHR ''.'' b)))"
    unfolding compareVersions_def by (rule compareFrom_zero_nan [symmetric])
  have 3: "i < length ps \<and> ps ! i = NaN \<longrightarrow> part ps i = Fin 0"
    by (simp add: part_def)
  have 4: "Number ''x'' = NaN"
    by (simp add: number_eval)
  show ?thesis
    by (intro conjI) (rule 1, rule 2, rule 3, rule 4, rule compare_examples(5))
qed

theorem compareVersions_non_numeric_witness:
  "compareVersions ''1.x.3'' ''1.0.3'' \<in> {- 1, 0, 1} \<and>
   (0::nat) < length [NaN] \<and> [NaN] ! 0 = NaN \<and> part [NaN] 0 = Fin 0"
proof -
  note t = compareVersions_non_numeric [of "''1.x.3''" "''1.0.3''" 0 "[NaN]"]
  have h: "(0::nat) < length [NaN] \<and> [NaN] ! 0 = NaN"
    by simp
  from t have a: "compareVersions ''1.x.3'' ''1.0.3'' \<in> {- 1, 0, 1}"
    by blast
  from t h have b: "part [NaN] 0 = Fin 0"
    by blast
  from a h b show ?thesis
    by blast
qed


subsection \<open>Notification of subscribers\<close>

lemma run_callback_subscribe_only:
  "list_all is_subscribe acts \<Longrightarrow> \<exists>extra. run_callback acts cbs = (cbs @ extra, False)"
proof (induction acts arbitrary: cbs)
  case Nil
  then show ?case by simp
next
  case (Cons a acts)
  then obtain c where a: "a = Subscribe c" by (cases a) auto
  from Cons have "list_all is_subscribe acts" by simp
  from Cons.IH [OF this, of "cbs @ [c]"] obtain extra
    where "run_callback acts (cbs @ [c]) = ((cbs @ [c]) @ extra, False)" by blast
  then show ?case by (simp add: a subscribe_def)
qed

lemma forEach_from_append_only:
  assumes "\<forall>c\<in>set base. list_all is_subscribe (beh c st)"
  shows "k \<le> length base \<Longrightarrow>
     \<exists>extra'. forEach_from k (length base) beh st (base @ extra) =
       \<lparr>callbacks_after = base @ extra', invoked = map (\<lambda>c. (c, st)) (drop k base), threw = None\<rparr>"
proof (induction "length base - k" arbitrary: k extra)
  case 0
  then have "k = length base" by simp
  then show ?case by (simp add: forEach_from.simps [of "length base"])
next
  case (Suc n)
  then have k: "k < length base" by simp
  then have mem: "base ! k \<in> set base" by simp
  with assms have "list_all is_subscribe (beh (base ! k) st)" by blast
  from run_callback_subscribe_only [OF this, of "base @ extra"] obtain e2
    where run: "run_callback (beh (base ! k) st) (base @ extra) = (base @ extra @ e2, False)"
    by auto
  from Suc(2) k have "n = length base - Suc k" "Suc k \<le> length base" by simp_all
  from Suc(1) [OF this, of "extra @ e2"] obtain e3 where
    rec: "forEach_from (Suc k) (length base) beh st (base @ extra @ e2) =
       \<lparr>callbacks_after = base @ e3, invoked = map (\<lambda>c. (c, st)) (drop (Suc k) base), threw = None\<rparr>"
    by blast
  have "drop k base = base ! k # drop (Suc k) base"
    using k by (simp add: Cons_nth_drop_Suc)
  then show ?case
    using k by (simp add: forEach_from.simps [of k] nth_append run rec)
qed

lemma forEach_append_only:
  assumes "\<forall>c\<in>set cbs. list_all is_subscribe (beh c st)"
  shows "invoked (forEach beh st cbs) = map (\<lambda>c. (c, st)) cbs \<and> threw (forEach beh st cbs) = None"
  using assms forEach_from_append_only [where base = cbs and beh = beh and st = st and k = 0
      and extra = "[]"]
  by (auto simp: forEach_def)

lemma forEach_from_passive:
  assumes "\<forall>c\<in>set cbs. beh c st = []"
  shows "k \<le> length cbs \<Longrightarrow>
     forEach_from k (length cbs) beh st cbs =
       \<lparr>callbacks_after = cbs, invoked = map (\<lambda>c. (c, st)) (drop k cbs), threw = None\<rparr>"
proof (induction "length cbs - k" arbitrary: k)
  case 0
  then have "k = length cbs" by simp
  then show ?case by (simp add: forEach_from.simps [of "length cbs"])
next
  case (Suc n)
  then have k: "k < length cbs" by simp
  with assms have run: "beh (cbs ! k) st = []" by simp
  from Suc(2) k have "n = length cbs - Suc k" "Suc k \<le> length cbs" by simp_all
  note rec = Suc(1) [OF this]
  have "drop k cbs = cbs ! k # drop (Suc k) cbs"
    using k by (simp add: Cons_nth_drop_Suc)
  then show ?case
    using k by (simp add: forEach_from.simps [of k] run rec)
qed

lemma forEach_passive:
  assumes "\<forall>c\<in>set cbs. beh c st = []"
  shows "forEach beh st cbs = \<lparr>callbacks_after = cbs, invoked = map (\<lambda>c. (c, st)) cbs, threw = None\<rparr>"
  using assms forEach_from_passive [where cbs = cbs and beh = beh and st = st and k = 0]
  by (simp add: forEach_def)

lemma forEach_from_status:
  "list_all (\<lambda>e. snd e = st) (invoked (forEach_from k len beh st cbs))"
proof (induction "len - k" arbitrary: k cbs)
  case 0
  then show ?case by (simp add: forEach_from.simps [of k])
next
  case (Suc n)
  then have k: "k < len" by simp
  from Suc(2) have n: "n = len - Suc k" by simp
  show ?case
    using k Suc(1) [OF n]
    by (simp add: forEach_from.simps [of k] Let_def split: prod.splits)
qed

lemma forEach_first:
  assumes "cbs \<noteq> []"
  shows "invoked (forEach beh st cbs) \<noteq> []"
  using assms
  by (simp add: forEach_def forEach_from.simps [of 0] Let_def split: prod.splits)

lemma forEach_empty: "forEach beh st [] = \<lparr>callbacks_after = [], invoked = [], threw = None\<rparr>"
  by (simp add: forEach_def forEach_from.simps [of 0])


lemma statusChanged_iff:
  "statusChanged prev new \<longleftrightarrow>
     (prev = None \<or> (\<exists>old. prev = Some old \<and> (status old \<noteq> status new \<or> latest old \<noteq> latest new)))"
  by (cases prev) (simp_all add: statusChanged_def)

lemma parse_changed:
  assumes "carriesVersion (headers resp)"
    and "statusChanged (versionStatus cl) (newStatus now (headers resp))"
  shows "parseVersionHeaders beh now resp cl =
     (cl\<lparr>versionStatus := Some (newStatus now (headers resp)),
         versionCallbacks :=
           callbacks_after (forEach beh (newStatus now (headers resp)) (versionCallbacks cl))\<rparr>,
      invoked (forEach beh (newStatus now (headers resp)) (versionCallbacks cl)),
      threw (forEach beh (newStatus now (headers resp)) (versionCallbacks cl)))"
  using assms by (simp add: parseVersionHeaders_def Let_def)

lemma parse_unchanged:
  assumes "carriesVersion (headers resp)"
    and "\<not> statusChanged (versionStatus cl) (newStatus now (headers resp))"
  shows "parseVersionHeaders beh now resp cl =
     (cl\<lparr>versionStatus := Some (newStatus now (headers resp))\<rparr>, [], None)"
  using assms by (simp add: parseVersionHeaders_def Let_def)

lemma parse_stores:
  assumes "carriesVersion (headers resp)"
  shows "versionStatus (fst (parseVersionHeaders beh now resp cl)) =
     Some (newStatus now (headers resp))"
  using assms by (simp add: parseVersionHeaders_def Let_def)

lemma parse_calls_iff:
  assumes "carriesVersion (headers resp)"
  shows "fst (snd (parseVersionHeaders beh now resp cl)) \<noteq> [] \<longleftrightarrow>
     versionCallbacks cl \<noteq> [] \<and> statusChanged (versionStatus cl) (newStatus now (headers resp))"
proof (cases "statusChanged (versionStatus cl) (newStatus now (headers resp))")
  case True
  show ?thesis
  proof (cases "versionCallbacks cl = []")
    case e: True
    then show ?thesis using True by (simp add: parse_changed [OF assms True] forEach_empty)
  next
    case False
    then show ?thesis using True by (simp add: parse_changed [OF assms True] forEach_first)
  qed
next
  case False
  then show ?thesis by (simp add: parse_unchanged [OF assms False])
qed

lemma parse_calls_status:
  "list_all (\<lambda>e. snd e = newStatus now (headers resp))
     (fst (snd (parseVersionHeaders beh now resp cl)))"
  by (simp add: parseVersionHeaders_def Let_def forEach_def forEach_from_status)

text \<open>
  Claim C5. A header counts as present when the response carries it with a non-empty
  value (JavaScript reads an empty string as false, like a missing header). If none of
  \<open>x-sdk-status\<close>, \<open>x-sdk-latest\<close> and \<open>x-sdk-minimum\<close> is present, \<open>parseVersionHeaders\<close>
  leaves the client as it is and calls no subscriber. If one of them is present, the
  stored status has \<open>current\<close> equal to the SDK's own version, \<open>latest\<close> from the header or
  else equal to \<open>current\<close>, \<open>minimum\<close> from the header or else \<open>1.0.0\<close>, \<open>status\<close> from the
  header or else \<open>unknown\<close>, \<open>updateRequired\<close> exactly when the status is \<open>deprecated\<close> or
  \<open>unsupported\<close>, and \<open>updateAvailable\<close> exactly when the latest header is present and
  \<open>compareVersions\<close> puts \<open>current\<close> below it.
\<close>

theorem version_status_from_headers:
  fixes resp :: "'a AxiosResponse"
  shows
  "(\<not> truthy (headers resp ''x-sdk-status'') \<and> \<not> truthy (headers resp ''x-sdk-latest'') \<and>
    \<not> truthy (headers resp ''x-sdk-minimum'') \<longrightarrow>
      parseVersionHeaders beh now resp cl = (cl, [], None)) \<and>
   (truthy (headers resp ''x-sdk-status'') \<or> truthy (headers resp ''x-sdk-latest'') \<or>
    truthy (headers resp ''x-sdk-minimum'') \<longrightarrow>
      (\<exists>ns. versionStatus (fst (parseVersionHeaders beh now resp cl)) = Some ns \<and>
         current ns = SDK_VERSION \<and>
         latest ns = (if truthy (headers resp ''x-sdk-latest'')
                      then value_of (headers resp ''x-sdk-latest'') else current ns) \<and>
         minimum ns = (if truthy (headers resp ''x-sdk-minimum'')
                       then value_of (headers resp ''x-sdk-minimum'') else ''1.0.0'') \<and>
         status ns = (if truthy (headers resp ''x-sdk-status'')
                      then value_of (headers resp ''x-sdk-status'') else ''unknown'') \<and>
         (updateRequired ns \<longleftrightarrow> status ns = ''deprecated'' \<or> status ns = ''unsupported'') \<and>
         (updateAvailable ns \<longleftrightarrow>
            truthy (headers resp ''x-sdk-latest'') \<and>
            compareVersions (current ns) (value_of (headers resp ''x-sdk-latest'')) < 0)))"
proof (intro conjI impI)
  assume "\<not> truthy (headers resp ''x-sdk-status'') \<and> \<not> truthy (headers resp ''x-sdk-latest'') \<and>
    \<not> truthy (headers resp ''x-sdk-minimum'')"
  then show "parseVersionHeaders beh now resp cl = (cl, [], None)"
    by (simp add: parseVersionHeaders_def carriesVersion_def)
next
  assume "truthy (headers resp ''x-sdk-status'') \<or> truthy (headers resp ''x-sdk-latest'') \<or>
    truthy (headers resp ''x-sdk-minimum'')"
  then have c: "carriesVersion (headers resp)"
    by (simp add: carriesVersion_def)
  let ?ns = "newStatus now (headers resp)"
  have "current ?ns = SDK_VERSION"
    by (simp add: newStatus_def Let_def)
  moreover have "latest ?ns = (if truthy (headers resp ''x-sdk-latest'')
                      then value_of (headers resp ''x-sdk-latest'') else current ?ns)"
    by (simp add: newStatus_def Let_def or_else_def truthy_def value_of_def split: option.splits)
  moreover have "minimum ?ns = (if truthy (headers resp ''x-sdk-minimum'')
                       then value_of (headers resp ''x-sdk-minimum'') else ''1.0.0'')"
    by (simp add: newStatus_def Let_def or_else_def truthy_def value_of_def split: option.splits)
  moreover have "status ?ns = (if truthy (headers resp ''x-sdk-status'')
                      then value_of (headers resp ''x-sdk-status'') else ''unknown'')"
    by (simp add: newStatus_def Let_def or_else_def truthy_def value_of_def split: option.splits)
  moreover have "updateRequired ?ns \<longleftrightarrow> status ?ns = ''deprecated'' \<or> status ?ns = ''unsupported''"
    by (auto simp: newStatus_def Let_def or_else_def split: option.splits)
  moreover have "updateAvailable ?ns \<longleftrightarrow>
            truthy (headers resp ''x-sdk-latest'') \<and>
            compareVersions (current ?ns) (value_of (headers resp ''x-sdk-latest'')) < 0"
    by (simp add: newStatus_def Let_def)
  ultimately show "\<exists>ns. versionStatus (fst (parseVersionHeaders beh now resp cl)) = Some ns \<and>
         current ns = SDK_VERSION \<and>
         latest ns = (if truthy (headers resp ''x-sdk-latest'')
                      then value_of (headers resp ''x-sdk-latest'') else current ns) \<and>
         minimum ns = (if truthy (headers resp ''x-sdk-minimum'')
                       then value_of (headers resp ''x-sdk-minimum'') else ''1.0.0'') \<and>
         status ns = (if truthy (headers resp ''x-sdk-status'')
                      then value_of (headers resp ''x-sdk-status'') else ''unknown'') \<and>
         (updateRequired ns \<longleftrightarrow> status ns = ''deprecated'' \<or> status ns = ''unsupported'') \<and>
         (updateAvailable ns \<longleftrightarrow>
            truthy (headers resp ''x-sdk-latest'') \<and>
            compareVersions (current ns) (value_of (headers resp ''x-sdk-latest'')) < 0)"
    using parse_stores [OF c, of beh now cl] by blast
qed


lemma deprecated_headers:
  "headers deprecated_response ''x-sdk-status'' = Some ''deprecated''"
  "headers deprecated_response ''x-sdk-latest'' = Some ''1.2.0''"
  "headers deprecated_response ''x-sdk-minimum'' = None"
  "headers deprecated_response ''x-sdk-message'' = None"
  by (simp_all add: deprecated_response_def)

lemma current_headers:
  "headers current_response ''x-sdk-status'' = Some ''current''"
  "headers current_response ''x-sdk-latest'' = Some ''1.2.0''"
  "headers current_response ''x-sdk-minimum'' = None"
  "headers current_response ''x-sdk-message'' = None"
  by (simp_all add: current_response_def)

lemma update_available: "compareVersions SDK_VERSION ''1.2.0'' < 0"
  by (simp add: compare_eval number_eval double_eval)

lemma newStatus_deprecated: "newStatus now (headers deprecated_response) = deprecated_status now"
  using update_available
  by (simp add: newStatus_def deprecated_headers deprecated_status_def or_else_def truthy_def
      value_of_def SDK_VERSION_def)

lemma newStatus_current: "newStatus now (headers current_response) = current_status now"
  using update_available
  by (simp add: newStatus_def current_headers current_status_def or_else_def truthy_def
      value_of_def SDK_VERSION_def)

lemma carries_examples:
  "carriesVersion (headers deprecated_response)" "carriesVersion (headers current_response)"
  by (simp_all add: carriesVersion_def deprecated_headers current_headers truthy_def)

theorem version_status_from_headers_witness:
  "truthy (headers deprecated_response ''x-sdk-status'') \<and>
   (\<exists>ns. versionStatus (fst (parseVersionHeaders passive_callbacks 5 deprecated_response
             two_subscribers)) = Some ns \<and>
      current ns = ''1.1.0'' \<and> latest ns = ''1.2.0'' \<and> minimum ns = ''1.0.0'' \<and>
      status ns = ''deprecated'' \<and> updateRequired ns \<and> updateAvailable ns) \<and>
   \<not> truthy (headers (no_payload :: unit AxiosResponse) ''x-sdk-status'') \<and>
   \<not> truthy (headers (no_payload :: unit AxiosResponse) ''x-sdk-latest'') \<and>
   \<not> truthy (headers (no_payload :: unit AxiosResponse) ''x-sdk-minimum'') \<and>
   parseVersionHeaders passive_callbacks 5 (no_payload :: unit AxiosResponse) two_subscribers =
     (two_subscribers, [], None)"
proof -
  have t: "truthy (headers deprecated_response ''x-sdk-status'')"
    "truthy (headers deprecated_response ''x-sdk-latest'')"
    "\<not> truthy (headers deprecated_response ''x-sdk-minimum'')"
    by (simp_all add: deprecated_headers truthy_def)
  have n: "\<not> truthy (headers (no_payload :: unit AxiosResponse) ''x-sdk-status'')"
    "\<not> truthy (headers (no_payload :: unit AxiosResponse) ''x-sdk-latest'')"
    "\<not> truthy (headers (no_payload :: unit AxiosResponse) ''x-sdk-minimum'')"
    by (simp_all add: no_payload_def truthy_def)
  from version_status_from_headers [of deprecated_response passive_callbacks 5 two_subscribers] t(1)
  obtain ns where ns:
    "versionStatus (fst (parseVersionHeaders passive_callbacks 5 deprecated_response
        two_subscribers)) = Some ns"
    "current ns = SDK_VERSION"
    "latest ns = (if truthy (headers deprecated_response ''x-sdk-latest'')
                  then value_of (headers deprecated_response ''x-sdk-latest'') else current ns)"
    "minimum ns = (if truthy (headers deprecated_response ''x-sdk-minimum'')
                   then value_of (headers deprecated_response ''x-sdk-minimum'') else ''1.0.0'')"
    "status ns = (if truthy (headers deprecated_response ''x-sdk-status'')
                  then value_of (headers deprecated_response ''x-sdk-status'') else ''unknown'')"
    "updateRequired ns \<longleftrightarrow> status ns = ''deprecated'' \<or> status ns = ''unsupported''"
    "updateAvailable ns \<longleftrightarrow>
       truthy (headers deprecated_response ''x-sdk-latest'') \<and>
       compareVersions (current ns) (value_of (headers deprecated_response ''x-sdk-latest'')) < 0"
    by blast
  have 1: "\<exists>ns. versionStatus (fst (parseVersionHeaders passive_callbacks 5 deprecated_response
             two_subscribers)) = Some ns \<and>
      current ns = ''1.1.0'' \<and> latest ns = ''1.2.0'' \<and> minimum ns = ''1.0.0'' \<and>
      status ns = ''deprecated'' \<and> updateRequired ns \<and> updateAvailable ns"
    using ns t update_available
    by (intro exI [of _ ns]) (simp add: deprecated_headers value_of_def SDK_VERSION_def)
  from version_status_from_headers [of no_payload passive_callbacks 5 two_subscribers] n
  have 2: "parseVersionHeaders passive_callbacks 5 (no_payload :: unit AxiosResponse)
      two_subscribers = (two_subscribers, [], None)"
    by blast
  show ?thesis
    by (intro conjI) (rule t(1) 1 n 2)+
qed


subsection \<open>Transitions\<close>

lemma parse_passive:
  assumes "carriesVersion (headers resp)"
    and "statusChanged (versionStatus cl) (newStatus now (headers resp))"
    and "\<forall>c\<in>set (versionCallbacks cl). beh c (newStatus now (headers resp)) = []"
  shows "parseVersionHeaders beh now resp cl =
     (cl\<lparr>versionStatus := Some (newStatus now (headers resp))\<rparr>,
      map (\<lambda>c. (c, newStatus now (headers resp))) (versionCallbacks cl), None)"
  using assms(3)
    forEach_passive [where beh = beh and st = "newStatus now (headers resp)"
      and cbs = "versionCallbacks cl"]
  by (simp add: parse_changed [OF assms(1,2)])

lemma two_responses:
  fixes r1 r2 :: "'a AxiosResponse"
  assumes "carriesVersion (headers r1)" "carriesVersion (headers r2)"
    and "headers r2 ''x-sdk-status'' = headers r1 ''x-sdk-status''"
    and "headers r2 ''x-sdk-latest'' = headers r1 ''x-sdk-latest''"
  shows "\<exists>calls. snd (receive_all beh [(t1, r1), (t2, r2)] cl) = [calls, []] \<and>
           calls = fst (snd (parseVersionHeaders beh t1 r1 cl))"
    and "versionStatus (fst (receive_all beh [(t1, r1), (t2, r2)] cl)) =
           Some (newStatus t2 (headers r2))"
proof -
  obtain cl1 calls1 x1 where p1: "parseVersionHeaders beh t1 r1 cl = (cl1, calls1, x1)"
    by (cases "parseVersionHeaders beh t1 r1 cl") auto
  have st1: "versionStatus cl1 = Some (newStatus t1 (headers r1))"
    using parse_stores [OF assms(1), of beh t1 cl] p1 by simp
  have same: "status (newStatus t2 (headers r2)) = status (newStatus t1 (headers r1))"
    "latest (newStatus t2 (headers r2)) = latest (newStatus t1 (headers r1))"
    using assms(3,4) by (simp_all add: newStatus_def Let_def)
  have "\<not> statusChanged (versionStatus cl1) (newStatus t2 (headers r2))"
    by (simp add: st1 statusChanged_def same)
  from parse_unchanged [OF assms(2) this]
  have p2: "parseVersionHeaders beh t2 r2 cl1 =
      (cl1\<lparr>versionStatus := Some (newStatus t2 (headers r2))\<rparr>, [], None)" .
  show "\<exists>calls. snd (receive_all beh [(t1, r1), (t2, r2)] cl) = [calls, []] \<and>
           calls = fst (snd (parseVersionHeaders beh t1 r1 cl))"
    by (simp add: p1 p2)
  show "versionStatus (fst (receive_all beh [(t1, r1), (t2, r2)] cl)) =
           Some (newStatus t2 (headers r2))"
    by (simp add: p1 p2)
qed

lemma three_responses:
  fixes r1 r2 r3 :: "'a AxiosResponse"
  assumes c: "carriesVersion (headers r1)" "carriesVersion (headers r2)" "carriesVersion (headers r3)"
    and same: "headers r2 ''x-sdk-status'' = headers r1 ''x-sdk-status''"
      "headers r2 ''x-sdk-latest'' = headers r1 ''x-sdk-latest''"
    and differs: "status (newStatus t3 (headers r3)) \<noteq> status (newStatus t2 (headers r2))"
    and fresh: "versionStatus cl = None"
    and quiet: "\<forall>c\<in>set (versionCallbacks cl). \<forall>st. beh c st = []"
  shows "snd (receive_all beh [(t1, r1), (t2, r2), (t3, r3)] cl) =
     [map (\<lambda>c. (c, newStatus t1 (headers r1))) (versionCallbacks cl), [],
      map (\<lambda>c. (c, newStatus t3 (headers r3))) (versionCallbacks cl)]"
proof -
  let ?cl1 = "cl\<lparr>versionStatus := Some (newStatus t1 (headers r1))\<rparr>"
  let ?cl2 = "cl\<lparr>versionStatus := Some (newStatus t2 (headers r2))\<rparr>"
  let ?cl3 = "cl\<lparr>versionStatus := Some (newStatus t3 (headers r3))\<rparr>"
  have ch1: "statusChanged (versionStatus cl) (newStatus t1 (headers r1))"
    by (simp add: fresh statusChanged_def)
  have p1: "parseVersionHeaders beh t1 r1 cl =
     (?cl1, map (\<lambda>c. (c, newStatus t1 (headers r1))) (versionCallbacks cl), None)"
    using quiet by (intro parse_passive [OF c(1) ch1]) simp
  have eq: "status (newStatus t2 (headers r2)) = status (newStatus t1 (headers r1))"
    "latest (newStatus t2 (headers r2)) = latest (newStatus t1 (headers r1))"
    using same by (simp_all add: newStatus_def Let_def)
  have "\<not> statusChanged (versionStatus ?cl1) (newStatus t2 (headers r2))"
    by (simp add: statusChanged_def eq)
  from parse_unchanged [OF c(2) this]
  have p2: "parseVersionHeaders beh t2 r2 ?cl1 = (?cl2, [], None)" by simp
  have ch3: "statusChanged (versionStatus ?cl2) (newStatus t3 (headers r3))"
    using differs by (simp add: statusChanged_def)
  have "parseVersionHeaders beh t3 r3 ?cl2 =
     (?cl2\<lparr>versionStatus := Some (newStatus t3 (headers r3))\<rparr>,
      map (\<lambda>c. (c, newStatus t3 (headers r3))) (versionCallbacks ?cl2), None)"
    using quiet by (intro parse_passive [OF c(3) ch3]) simp
  then have p3: "parseVersionHeaders beh t3 r3 ?cl2 =
     (?cl3, map (\<lambda>c. (c, newStatus t3 (headers r3))) (versionCallbacks cl), None)"
    by simp
  show ?thesis
    by (simp add: p1 p2 p3)
qed


text \<open>
  Claim C3. For a response that carries version headers: the stored status becomes the
  newly computed one in every case, and subscribers are called exactly when there was no
  stored status or the new one differs from it in \<open>status\<close> or in \<open>latest\<close> (and there is a
  subscriber to call); every call passes the new status, and subscribers that leave the
  client alone are all called, in registration order. Of two consecutive responses with
  the same status and latest headers the second calls no one, whatever the subscribers
  do, and still overwrites the stored status. On a fresh client, a third response whose
  status differs notifies the subscribers again, with the third status.
\<close>

theorem version_transition:
  fixes resp r1 r2 r3 :: "'a AxiosResponse"
  shows
  "(carriesVersion (headers resp) \<longrightarrow>
      versionStatus (fst (parseVersionHeaders beh now resp cl)) =
        Some (newStatus now (headers resp)) \<and>
      (fst (snd (parseVersionHeaders beh now resp cl)) \<noteq> [] \<longleftrightarrow>
         versionCallbacks cl \<noteq> [] \<and>
         (versionStatus cl = None \<or>
          (\<exists>old. versionStatus cl = Some old \<and>
             (status old \<noteq> status (newStatus now (headers resp)) \<or>
              latest old \<noteq> latest (newStatus now (headers resp)))))) \<and>
      list_all (\<lambda>e. snd e = newStatus now (headers resp))
        (fst (snd (parseVersionHeaders beh now resp cl))) \<and>
      ((versionStatus cl = None \<or>
        (\<exists>old. versionStatus cl = Some old \<and>
           (status old \<noteq> status (newStatus now (headers resp)) \<or>
            latest old \<noteq> latest (newStatus now (headers resp))))) \<and>
       (\<forall>c\<in>set (versionCallbacks cl). beh c (newStatus now (headers resp)) = []) \<longrightarrow>
         fst (snd (parseVersionHeaders beh now resp cl)) =
           map (\<lambda>c. (c, newStatus now (headers resp))) (versionCallbacks cl))) \<and>
   (carriesVersion (headers r1) \<and> carriesVersion (headers r2) \<and>
    headers r2 ''x-sdk-status'' = headers r1 ''x-sdk-status'' \<and>
    headers r2 ''x-sdk-latest'' = headers r1 ''x-sdk-latest'' \<longrightarrow>
      snd (receive_all beh [(t1, r1), (t2, r2)] cl) =
        [fst (snd (parseVersionHeaders beh t1 r1 cl)), []] \<and>
      versionStatus (fst (receive_all beh [(t1, r1), (t2, r2)] cl)) =
        Some (newStatus t2 (headers r2))) \<and>
   (carriesVersion (headers r1) \<and> carriesVersion (headers r2) \<and> carriesVersion (headers r3) \<and>
    headers r2 ''x-sdk-status'' = headers r1 ''x-sdk-status'' \<and>
    headers r2 ''x-sdk-latest'' = headers r1 ''x-sdk-latest'' \<and>
    status (newStatus t3 (headers r3)) \<noteq> status (newStatus t2 (headers r2)) \<and>
    versionStatus cl = None \<and>
    (\<forall>c\<in>set (versionCallbacks cl). \<forall>st. beh c st = []) \<longrightarrow>
      snd (receive_all beh [(t1, r1), (t2, r2), (t3, r3)] cl) =
        [map (\<lambda>c. (c, newStatus t1 (headers r1))) (versionCallbacks cl), [],
         map (\<lambda>c. (c, newStatus t3 (headers r3))) (versionCallbacks cl)])"
proof (intro conjI impI)
  assume c: "carriesVersion (headers resp)"
  show "versionStatus (fst (parseVersionHeaders beh now resp cl)) =
        Some (newStatus now (headers resp))"
    by (rule parse_stores [OF c])
  show "fst (snd (parseVersionHeaders beh now resp cl)) \<noteq> [] \<longleftrightarrow>
         versionCallbacks cl \<noteq> [] \<and>
         (versionStatus cl = None \<or>
          (\<exists>old. versionStatus cl = Some old \<and>
             (status old \<noteq> status (newStatus now (headers resp)) \<or>
              latest old \<noteq> latest (newStatus now (headers resp)))))"
    unfolding parse_calls_iff [OF c] statusChanged_iff ..
  show "list_all (\<lambda>e. snd e = newStatus now (headers resp))
        (fst (snd (parseVersionHeaders beh now resp cl)))"
    by (rule parse_calls_status)
next
  assume c: "carriesVersion (headers resp)"
    and h: "(versionStatus cl = None \<or>
        (\<exists>old. versionStatus cl = Some old \<and>
           (status old \<noteq> status (newStatus now (headers resp)) \<or>
            latest old \<noteq> latest (newStatus now (headers resp))))) \<and>
       (\<forall>c\<in>set (versionCallbacks cl). beh c (newStatus now (headers resp)) = [])"
  from h have ch: "statusChanged (versionStatus cl) (newStatus now (headers resp))"
    unfolding statusChanged_iff by blast
  from h have q: "\<forall>c\<in>set (versionCallbacks cl). beh c (newStatus now (headers resp)) = []"
    by blast
  show "fst (snd (parseVersionHeaders beh now resp cl)) =
           map (\<lambda>c. (c, newStatus now (headers resp))) (versionCallbacks cl)"
    using parse_passive [where beh = beh, OF c ch q] by simp
next
  assume h: "carriesVersion (headers r1) \<and> carriesVersion (headers r2) \<and>
    headers r2 ''x-sdk-status'' = headers r1 ''x-sdk-status'' \<and>
    headers r2 ''x-sdk-latest'' = headers r1 ''x-sdk-latest''"
  then have a: "carriesVersion (headers r1)" "carriesVersion (headers r2)"
    "headers r2 ''x-sdk-status'' = headers r1 ''x-sdk-status''"
    "headers r2 ''x-sdk-latest'' = headers r1 ''x-sdk-latest''"
    by blast+
  from two_responses(1) [OF a, of beh t1 t2 cl]
  show "snd (receive_all beh [(t1, r1), (t2, r2)] cl) =
        [fst (snd (parseVersionHeaders beh t1 r1 cl)), []]"
    by blast
  show "versionStatus (fst (receive_all beh [(t1, r1), (t2, r2)] cl)) =
        Some (newStatus t2 (headers r2))"
    by (rule two_responses(2) [OF a])
next
  assume h: "carriesVersion (headers r1) \<and> carriesVersion (headers r2) \<and> carriesVersion (headers r3) \<and>
    headers r2 ''x-sdk-status'' = headers r1 ''x-sdk-status'' \<and>
    headers r2 ''x-sdk-latest'' = headers r1 ''x-sdk-latest'' \<and>
    status (newStatus t3 (headers r3)) \<noteq> status (newStatus t2 (headers r2)) \<and>
    versionStatus cl = None \<and>
    (\<forall>c\<in>set (versionCallbacks cl). \<forall>st. beh c st = [])"
  then have a: "carriesVersion (headers r1)" "carriesVersion (headers r2)"
    "carriesVersion (headers r3)"
    "headers r2 ''x-sdk-status'' = headers r1 ''x-sdk-status''"
    "headers r2 ''x-sdk-latest'' = headers r1 ''x-sdk-latest''"
    "status (newStatus t3 (headers r3)) \<noteq> status (newStatus t2 (headers r2))"
    "versionStatus cl = None"
    "\<forall>c\<in>set (versionCallbacks cl). \<forall>st. beh c st = []"
    by blast+
  show "snd (receive_all beh [(t1, r1), (t2, r2), (t3, r3)] cl) =
        [map (\<lambda>c. (c, newStatus t1 (headers r1))) (versionCallbacks cl), [],
         map (\<lambda>c. (c, newStatus t3 (headers r3))) (versionCallbacks cl)]"
    by (rule three_responses [OF a])
qed

lemma passive_quiet: "\<forall>c\<in>set cbs. \<forall>st. passive_callbacks c st = []"
  by (simp add: passive_callbacks_def)

theorem version_transition_witness:
  "carriesVersion (headers deprecated_response) \<and>
   carriesVersion (headers current_response) \<and>
   versionStatus two_subscribers = None \<and>
   status (newStatus 3 (headers current_response)) \<noteq>
     status (newStatus 2 (headers deprecated_response)) \<and>
   snd (receive_all passive_callbacks
          [(1, deprecated_response), (2, deprecated_response), (3, current_response)]
          two_subscribers) =
     [[(0, deprecated_status 1), (1, deprecated_status 1)], [],
      [(0, current_status 3), (1, current_status 3)]]"
proof -
  have d: "status (newStatus 3 (headers current_response)) \<noteq>
     status (newStatus 2 (headers deprecated_response))"
    by (simp add: newStatus_deprecated newStatus_current deprecated_status_def current_status_def)
  have f: "versionStatus two_subscribers = None"
    by (simp add: two_subscribers_def)
  from version_transition [of deprecated_response passive_callbacks 0 two_subscribers
      deprecated_response deprecated_response 1 2 current_response 3]
    carries_examples d f passive_quiet [of "versionCallbacks two_subscribers"]
  have "snd (receive_all passive_callbacks
          [(1, deprecated_response), (2, deprecated_response), (3, current_response)]
          two_subscribers) =
        [map (\<lambda>c. (c, newStatus 1 (headers deprecated_response))) (versionCallbacks two_subscribers),
         [],
         map (\<lambda>c. (c, newStatus 3 (headers current_response))) (versionCallbacks two_subscribers)]"
    by blast
  then have r: "snd (receive_all passive_callbacks
          [(1, deprecated_response), (2, deprecated_response), (3, current_response)]
          two_subscribers) =
     [[(0, deprecated_status 1), (1, deprecated_status 1)], [],
      [(0, current_status 3), (1, current_status 3)]]"
    by (simp add: newStatus_deprecated newStatus_current two_subscribers_def)
  show ?thesis
    by (intro conjI) (rule carries_examples f d r)+
qed


subsection \<open>Removal during a notification\<close>

text \<open>
  Claim C4, as stated: when a callback unsubscribes itself or another subscriber during a
  notification, every subscriber registered when the notification began is still called
  once. It fails with two subscribers 0 and 1 of which the first unsubscribes itself:
  \<open>forEach\<close> runs over the live array, the removal moves subscriber 1 to index 0, index 1
  is empty when \<open>forEach\<close> reaches it, and subscriber 1 is never called.
\<close>

theorem removal_skips_subscriber:
  "fst (snd (parseVersionHeaders first_unsubscribes_itself 1 deprecated_response two_subscribers)) =
     [(0, deprecated_status 1)] \<and>
   versionCallbacks two_subscribers = [0, 1] \<and>
   versionCallbacks
     (fst (parseVersionHeaders first_unsubscribes_itself 1 deprecated_response two_subscribers)) =
     [1]"
proof -
  have ch: "statusChanged (versionStatus two_subscribers) (newStatus 1 (headers deprecated_response))"
    by (simp add: statusChanged_def two_subscribers_def)
  have f: "forEach first_unsubscribes_itself (deprecated_status 1) [0, Suc 0] =
      \<lparr>callbacks_after = [Suc 0], invoked = [(0, deprecated_status 1)], threw = None\<rparr>"
    by (simp add: forEach_def forEach_from.simps [of 0] forEach_from.simps [of "Suc 0"]
        forEach_from.simps [of "Suc (Suc 0)"] first_unsubscribes_itself_def unsubscribe_def
        splice1_def eval_nat_numeral)
  have cb: "versionCallbacks two_subscribers = [0, 1]"
    by (simp add: two_subscribers_def)
  have p: "parseVersionHeaders first_unsubscribes_itself 1 deprecated_response two_subscribers =
      (two_subscribers\<lparr>versionStatus := Some (deprecated_status 1), versionCallbacks := [1]\<rparr>,
       [(0, deprecated_status 1)], None)"
    using parse_changed [OF carries_examples(1) ch, of first_unsubscribes_itself]
    by (simp add: newStatus_deprecated cb f)
  show ?thesis
    by (simp add: p cb)
qed

text \<open>
  Claim C4, amended: when no callback called during the notification removes a
  subscriber or throws (callbacks may register further subscribers), every subscriber
  registered when the notification began is called exactly once with the new status, in
  registration order, and no one else is called.
\<close>

theorem notification_without_removal:
  fixes resp :: "'a AxiosResponse"
  assumes "carriesVersion (headers resp)"
    and "versionStatus cl = None \<or>
         (\<exists>old. versionStatus cl = Some old \<and>
            (status old \<noteq> status (newStatus now (headers resp)) \<or>
             latest old \<noteq> latest (newStatus now (headers resp))))"
    and "\<forall>c\<in>set (versionCallbacks cl). list_all is_subscribe (beh c (newStatus now (headers resp)))"
  shows "fst (snd (parseVersionHeaders beh now resp cl)) =
           map (\<lambda>c. (c, newStatus now (headers resp))) (versionCallbacks cl) \<and>
         snd (snd (parseVersionHeaders beh now resp cl)) = None"
proof -
  from assms(2) have ch: "statusChanged (versionStatus cl) (newStatus now (headers resp))"
    unfolding statusChanged_iff .
  from forEach_append_only [where beh = beh, OF assms(3)]
  show ?thesis
    by (simp add: parse_changed [OF assms(1) ch])
qed

theorem notification_without_removal_witness:
  "carriesVersion (headers deprecated_response) \<and>
   versionStatus two_subscribers = None \<and>
   fst (snd (parseVersionHeaders passive_callbacks 1 deprecated_response two_subscribers)) =
     [(0, deprecated_status 1), (1, deprecated_status 1)] \<and>
   snd (snd (parseVersionHeaders passive_callbacks 1 deprecated_response two_subscribers)) = None"
proof -
  have f: "versionStatus two_subscribers = None"
    by (simp add: two_subscribers_def)
  have q: "\<forall>c\<in>set (versionCallbacks two_subscribers).
      list_all is_subscribe (passive_callbacks c (newStatus 1 (headers deprecated_response)))"
    by (simp add: passive_callbacks_def)
  from notification_without_removal [where beh = passive_callbacks, OF carries_examples(1) disjI1 q,
      OF f]
  have r: "fst (snd (parseVersionHeaders passive_callbacks 1 deprecated_response two_subscribers)) =
     [(0, deprecated_status 1), (1, deprecated_status 1)] \<and>
   snd (snd (parseVersionHeaders passive_callbacks 1 deprecated_response two_subscribers)) = None"
    by (simp add: newStatus_deprecated two_subscribers_def)
  show ?thesis
    using carries_examples(1) f r by blast
qed

subsection \<open>The aggregation helpers and the clock\<close>

lemma calculate_loop_view:
  "map cost_view as = map cost_view bs \<Longrightarrow>
   calculate_loop as p q acc = calculate_loop bs p q acc"
proof (induction as arbitrary: bs acc)
  case Nil
  then show ?case by simp
next
  case (Cons a as)
  then obtain b bs' where bs: "bs = b # bs'" by (cases bs) auto
  with Cons.prems have v: "cost_view a = cost_view b" and rest: "map cost_view as = map cost_view bs'"
    by simp_all
  from v have "adder_cost a p q = adder_cost b p q"
    "or_else (display_name a) (adder_name a) = or_else (display_name b) (adder_name b)"
    "adder_type a = adder_type b"
    by (simp_all add: cost_view_def adder_cost_def)
  then show ?case
    using Cons.IH [OF rest] by (simp add: bs Let_def)
qed

lemma filter_adders_clock:
  "\<forall>j<length adders.
      date_after (effective_date (adders ! j)) (c1 (k + j)) =
        date_after (effective_date (adders ! j)) (c2 (k + j)) \<and>
      date_before (expiration_date (adders ! j)) (c1 (k + j)) =
        date_before (expiration_date (adders ! j)) (c2 (k + j)) \<Longrightarrow>
   filter_adders opts c1 k adders = filter_adders opts c2 k adders"
proof (induction adders arbitrary: k)
  case Nil
  then show ?case by simp
next
  case (Cons a adders)
  from Cons.prems [rule_format, of 0]
  have h: "date_after (effective_date a) (c1 k) = date_after (effective_date a) (c2 k)"
    "date_before (expiration_date a) (c1 k) = date_before (expiration_date a) (c2 k)"
    by simp_all
  then have keep: "keep_adder opts (c1 k) a = keep_adder opts (c2 k) a"
    by (simp add: keep_adder_def)
  have "\<forall>j<length adders.
      date_after (effective_date (adders ! j)) (c1 (Suc k + j)) =
        date_after (effective_date (adders ! j)) (c2 (Suc k + j)) \<and>
      date_before (expiration_date (adders ! j)) (c1 (Suc k + j)) =
        date_before (expiration_date (adders ! j)) (c2 (Suc k + j))"
  proof (intro allI impI)
    fix j assume "j < length adders"
    then have "Suc j < length (a # adders)" by simp
    from Cons.prems [rule_format, OF this]
    show "date_after (effective_date (adders ! j)) (c1 (Suc k + j)) =
        date_after (effective_date (adders ! j)) (c2 (Suc k + j)) \<and>
      date_before (expiration_date (adders ! j)) (c1 (Suc k + j)) =
        date_before (expiration_date (adders ! j)) (c2 (Suc k + j))"
      by simp
  qed
  from Cons.IH [OF this] keep show ?case by simp
qed


lemma keep_before: "keep_adder None 0 expiring_adder"
  by (simp add: keep_adder_def expiring_adder_def truthy_def)

lemma keep_after: "\<not> keep_adder None 2000 expiring_adder"
  by (simp add: keep_adder_def expiring_adder_def truthy_def)

lemma fetched: "getCostAdders serves_expiring_adder ''m1'' = Inr [expiring_adder]"
  by (simp add: getCostAdders_def payload_or_empty_def payload_def serves_expiring_adder_def)

text \<open>
  Claim C8, as stated: the helpers are pure, and two evaluations of the active-adder
  filter on the same fetched list and options give the same result whatever the clock
  reads. It fails for an active adder that expires at the instant 1000: the filter keeps
  it when the clock reads 0 and drops it when the clock reads 2000.
\<close>

theorem clock_splits_active_adders:
  "getActiveCostAdders serves_expiring_adder (clock_at 0) ''m1'' None = Inr [expiring_adder] \<and>
   getActiveCostAdders serves_expiring_adder (clock_at 2000) ''m1'' None = Inr [] \<and>
   getActiveCostAdders serves_expiring_adder (clock_at 0) ''m1'' None \<noteq>
     getActiveCostAdders serves_expiring_adder (clock_at 2000) ''m1'' None"
  by (simp add: getActiveCostAdders_def fetched clock_at_def keep_before keep_after)


text \<open>
  Claim C8, amended: \<open>calculateCostAdders\<close> is a function of its inputs alone, and of each
  adder it reads only the name, the type and the value. \<open>getActiveCostAdders\<close> reads the
  clock once for every fetched adder; for a fixed fetched list and fixed options its
  result depends on the clock only through the comparisons of these readings with the
  adders' effective and expiration dates: two evaluations whose comparisons agree return
  the same list.
\<close>

theorem helpers_inputs_and_clock:
  "(map cost_view as = map cost_view bs \<longrightarrow>
      calculateCostAdders as p q = calculateCostAdders bs p q) \<and>
   (getCostAdders get marketId = Inr adders \<and>
    (\<forall>j<length adders.
       date_after (effective_date (adders ! j)) (c1 j) =
         date_after (effective_date (adders ! j)) (c2 j) \<and>
       date_before (expiration_date (adders ! j)) (c1 j) =
         date_before (expiration_date (adders ! j)) (c2 j)) \<longrightarrow>
      getActiveCostAdders get c1 marketId opts = getActiveCostAdders get c2 marketId opts)"
proof (intro conjI impI)
  assume "map cost_view as = map cost_view bs"
  then show "calculateCostAdders as p q = calculateCostAdders bs p q"
    unfolding calculateCostAdders_def by (rule calculate_loop_view)
next
  assume h: "getCostAdders get marketId = Inr adders \<and>
    (\<forall>j<length adders.
       date_after (effective_date (adders ! j)) (c1 j) =
         date_after (effective_date (adders ! j)) (c2 j) \<and>
       date_before (expiration_date (adders ! j)) (c1 j) =
         date_before (expiration_date (adders ! j)) (c2 j))"
  then have "filter_adders opts c1 0 adders = filter_adders opts c2 0 adders"
    using filter_adders_clock [where k = 0 and ?c1.0 = c1 and ?c2.0 = c2 and adders = adders
        and opts = opts]
    by simp
  with h show "getActiveCostAdders get c1 marketId opts = getActiveCostAdders get c2 marketId opts"
    by (simp add: getActiveCostAdders_def)
qed


theorem helpers_inputs_and_clock_witness:
  "map cost_view [expiring_adder] = map cost_view [expiring_adder\<lparr>active := False\<rparr>] \<and>
   calculateCostAdders [expiring_adder] (Fin 10000) (Fin 5) =
     calculateCostAdders [expiring_adder\<lparr>active := False\<rparr>] (Fin 10000) (Fin 5) \<and>
   getCostAdders serves_expiring_adder ''m1'' = Inr [expiring_adder] \<and>
   getActiveCostAdders serves_expiring_adder (clock_at 0) ''m1'' None =
     getActiveCostAdders serves_expiring_adder (clock_at 500) ''m1'' None"
proof -
  note t = helpers_inputs_and_clock [of "[expiring_adder]" "[expiring_adder\<lparr>active := False\<rparr>]"
      "Fin 10000" "Fin 5" serves_expiring_adder "''m1''" "[expiring_adder]" "clock_at 0"
      "clock_at 500" None]
  have v: "map cost_view [expiring_adder] = map cost_view [expiring_adder\<lparr>active := False\<rparr>]"
    by (simp add: cost_view_def)
  have w: "\<forall>j<length [expiring_adder].
       date_after (effective_date ([expiring_adder] ! j)) (clock_at 0 j) =
         date_after (effective_date ([expiring_adder] ! j)) (clock_at 500 j) \<and>
       date_before (expiration_date ([expiring_adder] ! j)) (clock_at 0 j) =
         date_before (expiration_date ([expiring_adder] ! j)) (clock_at 500 j)"
    by (simp add: expiring_adder_def clock_at_def)
  from t v have a: "calculateCostAdders [expiring_adder] (Fin 10000) (Fin 5) =
     calculateCostAdders [expiring_adder\<lparr>active := False\<rparr>] (Fin 10000) (Fin 5)"
    by (rule conjunct1 [THEN mp])
  from t have "getCostAdders serves_expiring_adder ''m1'' = Inr [expiring_adder] \<and>
    (\<forall>j<length [expiring_adder].
       date_after (effective_date ([expiring_adder] ! j)) (clock_at 0 j) =
         date_after (effective_date ([expiring_adder] ! j)) (clock_at 500 j) \<and>
       date_before (expiration_date ([expiring_adder] ! j)) (clock_at 0 j) =
         date_before (expiration_date ([expiring_adder] ! j)) (clock_at 500 j)) \<longrightarrow>
      getActiveCostAdders serves_expiring_adder (clock_at 0) ''m1'' None =
        getActiveCostAdders serves_expiring_adder (clock_at 500) ''m1'' None"
    by (rule conjunct2)
  with fetched w have b: "getActiveCostAdders serves_expiring_adder (clock_at 0) ''m1'' None =
     getActiveCostAdders serves_expiring_adder (clock_at 500) ''m1'' None"
    by (simp only: simp_thms)
  show ?thesis
    by (intro conjI) (rule v a fetched b)+
qed

end
